theory Spec2Isabelle
  imports Main "HOL-Library.Sublist"
begin

unbundle bit_operations_syntax

section \<open>KiteLink: the access-token lifecycle\<close>

text \<open>
  This theory embeds the credential code of KiteLink (\<^verbatim>\<open>ZerodhaAuth\<close>,
  \<^verbatim>\<open>validateAccessToken\<close>, \<^verbatim>\<open>updateEnvFile\<close>, \<^verbatim>\<open>getValidAccessToken\<close>) and the
  construction of \<^verbatim>\<open>ZerodhaClient\<close> at server start.

  Conventions of the embedding.
  \<^item> A JavaScript string is a \<^typ>\<open>string\<close> holding the UTF-8 encoding of its text; this
    is the form in which the program's strings meet the outside (the hash and the form
    encoding work on the UTF-8 bytes, and \<^verbatim>\<open>.env\<close> is written as UTF-8).
    Strings with unpaired surrogates have no such form and are not represented.
  \<^item> The content of a file is its bytes, which need not be well-formed UTF-8; reading
    the file decodes them (\<open>utf8_text\<close>).
  \<^item> Data received from the network is a JSON value (\<open>jsval\<close>); TypeScript's
    annotations are not checked at run time, so a field declared \<^verbatim>\<open>string\<close> may hold
    any JSON value.
  \<^item> Every asynchronous function takes the answers of the outside (\<open>outside\<close>) and the
    current \<open>world\<close>, and returns its outcome with the new world. The world carries the
    chronological trace of the calls made to the outside and the content of the
    \<^verbatim>\<open>.env\<close> file. Decorative console output is not traced.
\<close>

subsection \<open>SHA-256 (FIPS 180-4), on integers with the wrap-around written out\<close>

text \<open>
  \<^verbatim>\<open>crypto.createHash('sha256').update(s).digest('hex')\<close> is Node's SHA-256 of the UTF-8
  bytes of \<^verbatim>\<open>s\<close>, printed as 64 lower-case hexadecimal digits. A 32-bit word is an
  \<^typ>\<open>int\<close> in \<open>[0, 2^32)\<close>. The round constants (the fractional parts of the cube
  roots of the first 64 primes) and the initial hash value (of the square roots of the
  first 8) are written in decimal.
\<close>

definition K256 :: "int list" where
  "K256 = [1116352408, 1899447441, 3049323471, 3921009573, 961987163, 1508970993,
     2453635748, 2870763221, 3624381080, 310598401, 607225278, 1426881987,
     1925078388, 2162078206, 2614888103, 3248222580, 3835390401, 4022224774,
     264347078, 604807628, 770255983, 1249150122, 1555081692, 1996064986,
     2554220882, 2821834349, 2952996808, 3210313671, 3336571891, 3584528711,
     113926993, 338241895, 666307205, 773529912, 1294757372, 1396182291,
     1695183700, 1986661051, 2177026350, 2456956037, 2730485921, 2820302411,
     3259730800, 3345764771, 3516065817, 3600352804, 4094571909, 275423344,
     430227734, 506948616, 659060556, 883997877, 958139571, 1322822218,
     1537002063, 1747873779, 1955562222, 2024104815, 2227730452, 2361852424,
     2428436474, 2756734187, 3204031479, 3329325298]"

definition H256 :: "int list" where
  "H256 = [1779033703, 3144134277, 1013904242, 2773480762,
           1359893119, 2600822924, 528734635, 1541459225]"

definition add32 :: "int \<Rightarrow> int \<Rightarrow> int" where
  "add32 x y = (x + y) mod 4294967296"

definition rotr32 :: "nat \<Rightarrow> int \<Rightarrow> int" where
  "rotr32 n x = x div 2 ^ n + (x mod 2 ^ n) * 2 ^ (32 - n)"

definition Ch :: "int \<Rightarrow> int \<Rightarrow> int \<Rightarrow> int" where
  "Ch x y z = (x AND y) XOR ((4294967295 - x) AND z)"

definition Maj :: "int \<Rightarrow> int \<Rightarrow> int \<Rightarrow> int" where
  "Maj x y z = (x AND y) XOR (x AND z) XOR (y AND z)"

definition bsig0 :: "int \<Rightarrow> int" where
  "bsig0 x = rotr32 2 x XOR rotr32 13 x XOR rotr32 22 x"

definition bsig1 :: "int \<Rightarrow> int" where
  "bsig1 x = rotr32 6 x XOR rotr32 11 x XOR rotr32 25 x"

definition ssig0 :: "int \<Rightarrow> int" where
  "ssig0 x = rotr32 7 x XOR rotr32 18 x XOR x div 2 ^ 3"

definition ssig1 :: "int \<Rightarrow> int" where
  "ssig1 x = rotr32 17 x XOR rotr32 19 x XOR x div 2 ^ 10"

definition len_bytes :: "nat \<Rightarrow> int list" where
  "len_bytes n = map (\<lambda>i. (8 * int n div 256 ^ i) mod 256) [7, 6, 5, 4, 3, 2, 1, 0]"

definition sha_pad :: "int list \<Rightarrow> int list" where
  "sha_pad bs =
     (let n = length bs
      in bs @ [128] @ replicate ((119 - n mod 64) mod 64) 0 @ len_bytes n)"

fun be_words :: "int list \<Rightarrow> int list" where
  "be_words (a # b # c # d # bs) = (((a * 256 + b) * 256 + c) * 256 + d) # be_words bs"
| "be_words _ = []"

text \<open>
  One round. The second component is the sliding window of the message schedule:
  before round \<open>t\<close> it holds \<open>W\<^sub>t, \<dots>, W\<^sub>t\<^sub>+\<^sub>1\<^sub>5\<close>.
\<close>

fun sha_round :: "int list \<times> int list \<Rightarrow> int \<Rightarrow> int list \<times> int list" where
  "sha_round ([a, b, c, d, e, f, g, h], w # ws) k =
     (let t1 = add32 (add32 (add32 (add32 h (bsig1 e)) (Ch e f g)) k) w;
          t2 = add32 (bsig0 a) (Maj a b c)
      in ([add32 t1 t2, a, b, c, add32 d t1, e, f, g],
          ws @ [add32 (add32 (add32 (ssig1 (ws ! 13)) (ws ! 8)) (ssig0 (ws ! 0))) w]))"
| "sha_round s _ = s"

definition compress :: "int list \<Rightarrow> int list \<Rightarrow> int list" where
  "compress hs block = map2 add32 hs (fst (foldl sha_round (hs, block) K256))"

fun sha_blocks :: "int list \<Rightarrow> int list \<Rightarrow> int list" where
  "sha_blocks hs ws = (if length ws < 16 then hs
                       else sha_blocks (compress hs (take 16 ws)) (drop 16 ws))"

declare sha_blocks.simps [simp del]

definition hex_digit :: "int \<Rightarrow> char" where
  "hex_digit n = ''0123456789abcdef'' ! nat (n mod 16)"

definition hex_word :: "int \<Rightarrow> string" where
  "hex_word w = map (\<lambda>i. hex_digit (w div 16 ^ i)) [7, 6, 5, 4, 3, 2, 1, 0]"

definition sha256_hex :: "string \<Rightarrow> string" where
  "sha256_hex s =
     concat (map hex_word (sha_blocks H256 (be_words (sha_pad (map of_char s)))))"

subsection \<open>JSON values and the JavaScript operations applied to them\<close>

text \<open>
  A number is carried by its decimal rendering (the result of \<^verbatim>\<open>Number.prototype.toString\<close>):
  the program never calculates with a received number, it only tests and prints it.
  An object is the list of its own properties, each key once.
\<close>

datatype jsval =
    JUndefined
  | JNull
  | JBool bool
  | JNum string
  | JStr string
  | JArr "jsval list"
  | JObj "(string \<times> jsval) list"

datatype js_error =
    Error string
  | TypeError string
  | AxiosError "jsval option" string

text \<open>\<^verbatim>\<open>error.message\<close>; the second field of an \<open>AxiosError\<close> is its message, the first
  the \<^verbatim>\<open>data\<close> of \<^verbatim>\<open>error.response\<close> when there is a response.\<close>

fun message :: "js_error \<Rightarrow> string" where
  "message (Error m) = m"
| "message (TypeError m) = m"
| "message (AxiosError r m) = m"

fun isAxiosError :: "js_error \<Rightarrow> bool" where
  "isAxiosError (AxiosError r m) = True"
| "isAxiosError _ = False"

text \<open>Truthiness (\<^verbatim>\<open>ToBoolean\<close>).\<close>

fun truthy :: "jsval \<Rightarrow> bool" where
  "truthy JUndefined = False"
| "truthy JNull = False"
| "truthy (JBool b) = b"
| "truthy (JNum r) = (r \<noteq> ''0'' \<and> r \<noteq> ''NaN'')"
| "truthy (JStr s) = (s \<noteq> '''')"
| "truthy (JArr vs) = True"
| "truthy (JObj kvs) = True"

text \<open>
  String conversion as performed by a template literal (\<^verbatim>\<open>ToString\<close>). An array is
  joined with commas, \<^verbatim>\<open>null\<close> and \<^verbatim>\<open>undefined\<close> elements printing as nothing; a plain
  object prints as \<^verbatim>\<open>[object Object]\<close> (an object that carries a property of its own
  named \<^verbatim>\<open>toString\<close> or \<^verbatim>\<open>valueOf\<close> is outside this model).
\<close>

fun join_with :: "string \<Rightarrow> string list \<Rightarrow> string" where
  "join_with sep [] = ''''"
| "join_with sep [x] = x"
| "join_with sep (x # y # ys) = x @ sep @ join_with sep (y # ys)"

fun to_string :: "jsval \<Rightarrow> string" where
  "to_string JUndefined = ''undefined''"
| "to_string JNull = ''null''"
| "to_string (JBool b) = (if b then ''true'' else ''false'')"
| "to_string (JNum r) = r"
| "to_string (JStr s) = s"
| "to_string (JArr vs) =
     join_with '',''
       (map (\<lambda>v. if v = JUndefined \<or> v = JNull then '''' else to_string v) vs)"
| "to_string (JObj kvs) = ''[object Object]''"

text \<open>
  Reading a property \<^verbatim>\<open>v.name\<close>. The names this program reads (\<^verbatim>\<open>status\<close>,
  \<^verbatim>\<open>message\<close>, \<^verbatim>\<open>data\<close>, \<^verbatim>\<open>access_token\<close>) are not built-in properties
  of strings, numbers, booleans or arrays, so those yield \<^verbatim>\<open>undefined\<close>; reading from
  \<^verbatim>\<open>undefined\<close> or \<^verbatim>\<open>null\<close> throws a \<^verbatim>\<open>TypeError\<close> (message as printed by V8).
\<close>

definition read_error :: "string \<Rightarrow> string \<Rightarrow> js_error" where
  "read_error what name =
     TypeError (''Cannot read properties of '' @ what @ '' (reading '' @ [CHR 0x27] @ name
                @ [CHR 0x27] @ '')'')"

fun get_prop :: "jsval \<Rightarrow> string \<Rightarrow> js_error + jsval" where
  "get_prop JUndefined name = Inl (read_error ''undefined'' name)"
| "get_prop JNull name = Inl (read_error ''null'' name)"
| "get_prop (JObj kvs) name = Inr (case map_of kvs name of None \<Rightarrow> JUndefined | Some v \<Rightarrow> v)"
| "get_prop v name = Inr JUndefined"

text \<open>Optional chaining \<^verbatim>\<open>v?.name\<close>.\<close>

fun get_prop_opt :: "jsval \<Rightarrow> string \<Rightarrow> jsval" where
  "get_prop_opt JUndefined name = JUndefined"
| "get_prop_opt JNull name = JUndefined"
| "get_prop_opt (JObj kvs) name = (case map_of kvs name of None \<Rightarrow> JUndefined | Some v \<Rightarrow> v)"
| "get_prop_opt v name = JUndefined"

subsection \<open>Strings: form encoding, trimming, replacing\<close>

text \<open>
  \<^verbatim>\<open>URLSearchParams.prototype.toString\<close>: the \<^verbatim>\<open>application/x-www-form-urlencoded\<close>
  serialiser. ASCII letters and digits and \<^verbatim>\<open>* - . _\<close> stay, a space becomes \<^verbatim>\<open>+\<close>,
  every other byte of the UTF-8 form becomes \<^verbatim>\<open>%XX\<close> with upper-case digits.
\<close>

definition form_unreserved :: "char \<Rightarrow> bool" where
  "form_unreserved c =
     (let n = (of_char c :: nat)
      in (48 \<le> n \<and> n \<le> 57) \<or> (65 \<le> n \<and> n \<le> 90) \<or> (97 \<le> n \<and> n \<le> 122)
         \<or> c = CHR ''*'' \<or> c = CHR ''-'' \<or> c = CHR ''.'' \<or> c = CHR ''_'')"

definition upper_hex_digit :: "nat \<Rightarrow> char" where
  "upper_hex_digit n = ''0123456789ABCDEF'' ! (n mod 16)"

definition form_encode_byte :: "char \<Rightarrow> string" where
  "form_encode_byte c =
     (if form_unreserved c then [c]
      else if c = CHR '' '' then ''+''
      else [CHR ''%'', upper_hex_digit (of_char c div 16), upper_hex_digit (of_char c)])"

definition form_encode :: "string \<Rightarrow> string" where
  "form_encode s = concat (map form_encode_byte s)"

definition URLSearchParams_toString :: "(string \<times> string) list \<Rightarrow> string" where
  "URLSearchParams_toString params =
     join_with ''&'' (map (\<lambda>(k, v). form_encode k @ ''='' @ form_encode v) params)"

text \<open>
  \<^verbatim>\<open>String.prototype.trim\<close> removes the code points of \<^verbatim>\<open>WhiteSpace\<close> and
  \<^verbatim>\<open>LineTerminator\<close> from both ends. In UTF-8 these are: TAB, LF, VT, FF, CR, SP,
  U+00A0, U+1680, U+2000 to U+200A, U+2028, U+2029, U+202F, U+205F, U+3000, U+FEFF.
\<close>

definition js_whitespace :: "string list" where
  "js_whitespace =
     [[CHR 0x09], [CHR 0x0A], [CHR 0x0B], [CHR 0x0C], [CHR 0x0D], [CHR 0x20],
      [CHR 0xC2, CHR 0xA0],
      [CHR 0xE1, CHR 0x9A, CHR 0x80],
      [CHR 0xE2, CHR 0x80, CHR 0x80], [CHR 0xE2, CHR 0x80, CHR 0x81],
      [CHR 0xE2, CHR 0x80, CHR 0x82], [CHR 0xE2, CHR 0x80, CHR 0x83],
      [CHR 0xE2, CHR 0x80, CHR 0x84], [CHR 0xE2, CHR 0x80, CHR 0x85],
      [CHR 0xE2, CHR 0x80, CHR 0x86], [CHR 0xE2, CHR 0x80, CHR 0x87],
      [CHR 0xE2, CHR 0x80, CHR 0x88], [CHR 0xE2, CHR 0x80, CHR 0x89],
      [CHR 0xE2, CHR 0x80, CHR 0x8A],
      [CHR 0xE2, CHR 0x80, CHR 0xA8], [CHR 0xE2, CHR 0x80, CHR 0xA9],
      [CHR 0xE2, CHR 0x80, CHR 0xAF],
      [CHR 0xE2, CHR 0x81, CHR 0x9F],
      [CHR 0xE3, CHR 0x80, CHR 0x80],
      [CHR 0xEF, CHR 0xBB, CHR 0xBF]]"

text \<open>Removing, from the front, every leading occurrence of one of the given
  (non-empty) byte sequences.\<close>

function strip_any :: "string list \<Rightarrow> string \<Rightarrow> string" where
  "strip_any ws s =
     (case find (\<lambda>w. w \<noteq> [] \<and> prefix w s) ws of
        None \<Rightarrow> s
      | Some w \<Rightarrow> strip_any ws (drop (length w) s))"
  by pat_completeness auto
termination
proof (relation "measure (\<lambda>(ws, s). length s)")
  show "wf (measure (\<lambda>(ws, s). length s))" by simp
next
  fix ws :: "string list" and s w :: string
  assume "find (\<lambda>w. w \<noteq> [] \<and> prefix w s) ws = Some w"
  then have "w \<noteq> []" and "prefix w s"
    by (auto simp: find_Some_iff)
  then have "s \<noteq> []" by auto
  with \<open>w \<noteq> []\<close> show "((ws, drop (length w) s), (ws, s)) \<in> measure (\<lambda>(ws, s). length s)"
    by simp
qed

declare strip_any.simps [simp del]

definition trimStart :: "string \<Rightarrow> string" where
  "trimStart s = strip_any js_whitespace s"

definition trimEnd :: "string \<Rightarrow> string" where
  "trimEnd s = rev (strip_any (map rev js_whitespace) (rev s))"

definition trim :: "string \<Rightarrow> string" where
  "trim s = trimEnd (trimStart s)"

text \<open>
  \<^verbatim>\<open>content.replace(/ZERODHA_ACCESS_TOKEN=.*/, template)\<close>. The expression is not global
  and not anchored: it matches at the first occurrence of the key text, and \<^verbatim>\<open>.*\<close> takes
  everything up to the next line terminator (LF, CR, U+2028, U+2029) or the end.
\<close>

definition line_terminators :: "string list" where
  "line_terminators =
     [[CHR 0x0A], [CHR 0x0D], [CHR 0xE2, CHR 0x80, CHR 0xA8], [CHR 0xE2, CHR 0x80, CHR 0xA9]]"

fun dot_star :: "string \<Rightarrow> string \<times> string" where
  "dot_star [] = ([], [])"
| "dot_star (c # cs) =
     (if list_ex (\<lambda>t. prefix t (c # cs)) line_terminators then ([], c # cs)
      else (case dot_star cs of (m, r) \<Rightarrow> (c # m, r)))"

fun find_first :: "string \<Rightarrow> string \<Rightarrow> (string \<times> string) option" where
  "find_first key [] = (if key = [] then Some ([], []) else None)"
| "find_first key (c # cs) =
     (if prefix key (c # cs) then Some ([], drop (length key) (c # cs))
      else map_option (\<lambda>(p, r). (c # p, r)) (find_first key cs))"

definition token_key :: string where
  "token_key = ''ZERODHA_ACCESS_TOKEN=''"

text \<open>The match of \<^verbatim>\<open>/ZERODHA_ACCESS_TOKEN=.*/\<close>: the text before it, the matched text,
  the text after it.\<close>

definition match_token_line :: "string \<Rightarrow> (string \<times> string \<times> string) option" where
  "match_token_line content =
     (case find_first token_key content of
        None \<Rightarrow> None
      | Some (pre, rest) \<Rightarrow> (case dot_star rest of (v, post) \<Rightarrow> Some (pre, token_key @ v, post)))"

text \<open>
  \<^verbatim>\<open>GetSubstitution\<close> for an expression without capture groups: in the replacement
  template \<^verbatim>\<open>$$\<close> stands for \<^verbatim>\<open>$\<close>, \<^verbatim>\<open>$&\<close> for the matched text, \<^verbatim>\<open>$`\<close> for the text
  before the match and \<^verbatim>\<open>$'\<close> for the text after it; everything else is literal.
\<close>

fun get_substitution :: "string \<Rightarrow> string \<Rightarrow> string \<Rightarrow> string \<Rightarrow> string" where
  "get_substitution m p q [] = []"
| "get_substitution m p q [c] = [c]"
| "get_substitution m p q (c # d # ds) =
     (if c = CHR ''$'' then
        (if d = CHR ''$'' then CHR ''$'' # get_substitution m p q ds
         else if d = CHR 0x60 then p @ get_substitution m p q ds
         else if d = CHR ''&'' then m @ get_substitution m p q ds
         else if d = CHR 0x27 then q @ get_substitution m p q ds
         else c # get_substitution m p q (d # ds))
      else c # get_substitution m p q (d # ds))"

definition replace_token_line :: "string \<Rightarrow> string \<Rightarrow> string" where
  "replace_token_line content template =
     (case match_token_line content of
        None \<Rightarrow> content
      | Some (pre, matched, post) \<Rightarrow> pre @ get_substitution matched pre post template @ post)"

text \<open>
  \<^verbatim>\<open>fs.readFile(envPath, 'utf-8')\<close> decodes the bytes of the file as UTF-8, and
  \<^verbatim>\<open>fs.writeFile(envPath, updatedContent, 'utf-8')\<close> encodes the string again. Decoding
  never fails: every maximal invalid part of the input yields the replacement character
  U+FFFD, and a byte that cannot continue a sequence is read again as the start of the
  next one. A byte order mark is kept. \<open>utf8_text bytes\<close> is the string read from a file
  with these bytes (in the UTF-8 form in which this theory holds strings), which is also
  the bytes that writing this string gives: well-formed sequences are kept, each invalid
  part becomes \<^verbatim>\<open>EF BF BD\<close>.
\<close>

definition replacement_char :: string where
  "replacement_char = [CHR 0xEF, CHR 0xBF, CHR 0xBD]"

definition in_range :: "nat \<Rightarrow> nat \<Rightarrow> char \<Rightarrow> bool" where
  "in_range lo hi c = (lo \<le> of_char c \<and> of_char c \<le> hi)"

text \<open>The bounds of the first continuation byte, which exclude overlong forms, surrogates
  and code points beyond U+10FFFF.\<close>

definition cont_lower :: "char \<Rightarrow> nat" where
  "cont_lower b = (if b = CHR 0xE0 then 0xA0 else if b = CHR 0xF0 then 0x90 else 0x80)"

definition cont_upper :: "char \<Rightarrow> nat" where
  "cont_upper b = (if b = CHR 0xED then 0x9F else if b = CHR 0xF4 then 0x8F else 0xBF)"

fun utf8_text :: "string \<Rightarrow> string" where
  "utf8_text [] = []"
| "utf8_text (b # bs) =
     (if in_range 0 0x7F b then b # utf8_text bs
      else if in_range 0xC2 0xDF b then
        (case bs of
           [] \<Rightarrow> replacement_char
         | c # cs \<Rightarrow>
             if in_range 0x80 0xBF c then b # c # utf8_text cs
             else replacement_char @ utf8_text bs)
      else if in_range 0xE0 0xEF b then
        (case bs of
           [] \<Rightarrow> replacement_char
         | c # cs \<Rightarrow>
             if in_range (cont_lower b) (cont_upper b) c then
               (case cs of
                  [] \<Rightarrow> replacement_char
                | d # ds \<Rightarrow>
                    if in_range 0x80 0xBF d then b # c # d # utf8_text ds
                    else replacement_char @ utf8_text cs)
             else replacement_char @ utf8_text bs)
      else if in_range 0xF0 0xF4 b then
        (case bs of
           [] \<Rightarrow> replacement_char
         | c # cs \<Rightarrow>
             if in_range (cont_lower b) (cont_upper b) c then
               (case cs of
                  [] \<Rightarrow> replacement_char
                | d # ds \<Rightarrow>
                    if in_range 0x80 0xBF d then
                      (case ds of
                         [] \<Rightarrow> replacement_char
                       | e # es \<Rightarrow>
                           if in_range 0x80 0xBF e then b # c # d # e # utf8_text es
                           else replacement_char @ utf8_text ds)
                    else replacement_char @ utf8_text cs)
             else replacement_char @ utf8_text bs)
      else replacement_char @ utf8_text bs)"

subsection \<open>The outside, the world, outcomes\<close>

datatype event =
    HttpGet string "(string \<times> string) list" nat
  | HttpPost string "(string \<times> string) list" string nat
  | LoginUrlShown string
  | Question string
  | ReadFile string
  | WriteFile string string
  | ManualNotice string

text \<open>
  What the outside answers: the result of a GET (by URL and headers) and of a POST
  (by URL and body), either a response's \<^verbatim>\<open>data\<close> or the error axios rejects with; the
  line the operator pastes (\<open>None\<close>: the input ends without a line, and the question is
  never answered); the error of \<^verbatim>\<open>fs.writeFile\<close>, if it fails.
\<close>

record outside =
  http_get :: "string \<Rightarrow> (string \<times> string) list \<Rightarrow> js_error + jsval"
  http_post :: "string \<Rightarrow> string \<Rightarrow> js_error + jsval"
  pasted :: "string option"
  write_error :: "js_error option"

text \<open>The world: the calls made so far, oldest first, and the bytes of \<^verbatim>\<open>.env\<close> in the
  working directory (\<open>None\<close>: it cannot be read).\<close>

record world =
  trace :: "event list"
  dotenv :: "string option"

definition emit :: "event \<Rightarrow> world \<Rightarrow> world" where
  "emit e w = w\<lparr>trace := trace w @ [e]\<rparr>"

text \<open>A promise settles with a value, or with an error, or never.\<close>

datatype 'a outcome = Resolved 'a | Rejected js_error | Pending

subsection \<open>\<^verbatim>\<open>class ZerodhaAuth\<close>\<close>

record ZerodhaAuth =
  apiKey :: string
  apiSecret :: string
  baseUrl :: string

definition default_base_url :: string where
  "default_base_url = ''https://api.kite.trade''"

text \<open>The constructor, with the default of its third parameter.\<close>

definition new_ZerodhaAuth :: "string \<Rightarrow> string \<Rightarrow> ZerodhaAuth" where
  "new_ZerodhaAuth k s = \<lparr>apiKey = k, apiSecret = s, baseUrl = default_base_url\<rparr>"

definition getLoginUrl :: "ZerodhaAuth \<Rightarrow> string" where
  "getLoginUrl auth = ''https://kite.zerodha.com/connect/login?api_key='' @ apiKey auth"

text \<open>The checksum of \<^verbatim>\<open>generateAccessToken\<close>:
  \<^verbatim>\<open>sha256(this.apiKey + requestToken + this.apiSecret)\<close> in hexadecimal.\<close>

definition checksum :: "string \<Rightarrow> string \<Rightarrow> string \<Rightarrow> string" where
  "checksum k r s = sha256_hex (k @ r @ s)"

definition exchange_body :: "ZerodhaAuth \<Rightarrow> string \<Rightarrow> string" where
  "exchange_body auth requestToken =
     URLSearchParams_toString
       [(''api_key'', apiKey auth),
        (''request_token'', requestToken),
        (''checksum'', checksum (apiKey auth) requestToken (apiSecret auth))]"

definition exchange_post :: "ZerodhaAuth \<Rightarrow> string \<Rightarrow> event" where
  "exchange_post auth requestToken =
     HttpPost (baseUrl auth @ ''/session/token'')
       [(''Content-Type'', ''application/x-www-form-urlencoded'')]
       (exchange_body auth requestToken) 30000"

text \<open>The \<^verbatim>\<open>try\<close> block of \<^verbatim>\<open>generateAccessToken\<close>.\<close>

definition generateAccessToken_try ::
  "outside \<Rightarrow> ZerodhaAuth \<Rightarrow> string \<Rightarrow> world \<Rightarrow> (js_error + jsval) \<times> world" where
  "generateAccessToken_try out auth requestToken w =
     (let w1 = emit (exchange_post auth requestToken) w
      in (case http_post out (baseUrl auth @ ''/session/token'')
                   (exchange_body auth requestToken) of
            Inl e \<Rightarrow> Inl e
          | Inr d \<Rightarrow>
              (case get_prop d ''status'' of
                 Inl e \<Rightarrow> Inl e
               | Inr st \<Rightarrow>
                   if st = JStr ''success'' then get_prop d ''data''
                   else (case get_prop d ''message'' of
                           Inl e \<Rightarrow> Inl e
                         | Inr m \<Rightarrow> Inl (Error (''Authentication failed: '' @ to_string m)))),
          w1))"

text \<open>\<^verbatim>\<open>error.response?.data?.message\<close> of a caught axios error.\<close>

fun response_message :: "js_error \<Rightarrow> jsval" where
  "response_message (AxiosError (Some d) m) = get_prop_opt d ''message''"
| "response_message _ = JUndefined"

text \<open>The \<^verbatim>\<open>catch\<close> block: an axios error is replaced, any other error is thrown again.\<close>

definition generateAccessToken_catch :: "js_error \<Rightarrow> js_error" where
  "generateAccessToken_catch e =
     (if isAxiosError e then
        Error (''Failed to generate access token: ''
               @ to_string (if truthy (response_message e) then response_message e
                            else JStr (message e)))
      else e)"

definition generateAccessToken ::
  "outside \<Rightarrow> ZerodhaAuth \<Rightarrow> string \<Rightarrow> world \<Rightarrow> (js_error + jsval) \<times> world" where
  "generateAccessToken out auth requestToken w =
     (case generateAccessToken_try out auth requestToken w of
        (Inl e, w1) \<Rightarrow> (Inl (generateAccessToken_catch e), w1)
      | (Inr v, w1) \<Rightarrow> (Inr v, w1))"

definition question_text :: string where
  "question_text = ''Please paste the request_token here: ''"

text \<open>
  \<^verbatim>\<open>interactiveAuth\<close>: the login URL is shown, the question is asked, and the callback
  runs on the pasted line. Without a line the promise never settles.
\<close>

definition interactiveAuth :: "outside \<Rightarrow> ZerodhaAuth \<Rightarrow> world \<Rightarrow> jsval outcome \<times> world" where
  "interactiveAuth out auth w =
     (let w1 = emit (Question question_text) (emit (LoginUrlShown (getLoginUrl auth)) w)
      in case pasted out of
           None \<Rightarrow> (Pending, w1)
         | Some requestToken \<Rightarrow>
             if requestToken = [] \<or> trim requestToken = [] then
               (Rejected (Error ''Request token is required''), w1)
             else
               (case generateAccessToken out auth (trim requestToken) w1 of
                  (Inl e, w2) \<Rightarrow> (Rejected e, w2)
                | (Inr authResponse, w2) \<Rightarrow>
                    (case get_prop authResponse ''access_token'' of
                       Inl e \<Rightarrow> (Rejected e, w2)
                     | Inr tok \<Rightarrow> (Resolved tok, w2))))"

subsection \<open>\<^verbatim>\<open>validateAccessToken\<close>\<close>

definition profile_get :: "string \<Rightarrow> string \<Rightarrow> string \<Rightarrow> event" where
  "profile_get k accessToken base =
     HttpGet (base @ ''/user/profile'')
       [(''Authorization'', ''token '' @ k @ '':'' @ accessToken), (''X-Kite-Version'', ''3'')]
       10000"

text \<open>The \<^verbatim>\<open>try\<close> block: the request, then \<^verbatim>\<open>response.data.status === 'success'\<close>.\<close>

definition validateAccessToken_try ::
  "outside \<Rightarrow> string \<Rightarrow> string \<Rightarrow> string \<Rightarrow> world \<Rightarrow> (js_error + bool) \<times> world" where
  "validateAccessToken_try out k accessToken base w =
     (let w1 = emit (profile_get k accessToken base) w
      in (case http_get out (base @ ''/user/profile'')
                   [(''Authorization'', ''token '' @ k @ '':'' @ accessToken),
                    (''X-Kite-Version'', ''3'')] of
            Inl e \<Rightarrow> Inl e
          | Inr d \<Rightarrow>
              (case get_prop d ''status'' of
                 Inl e \<Rightarrow> Inl e
               | Inr st \<Rightarrow> Inr (st = JStr ''success'')),
          w1))"

text \<open>The whole function: whatever the \<^verbatim>\<open>try\<close> block throws, the \<^verbatim>\<open>catch\<close> block
  returns \<^verbatim>\<open>false\<close>.\<close>

definition validateAccessToken ::
  "outside \<Rightarrow> string \<Rightarrow> string \<Rightarrow> string \<Rightarrow> world \<Rightarrow> (js_error + bool) \<times> world" where
  "validateAccessToken out k accessToken base w =
     (case validateAccessToken_try out k accessToken base w of
        (Inl e, w1) \<Rightarrow> (Inr False, w1)
      | (Inr b, w1) \<Rightarrow> (Inr b, w1))"

subsection \<open>\<^verbatim>\<open>updateEnvFile\<close>\<close>

definition env_path :: string where
  "env_path = ''.env''"

text \<open>The content used when \<^verbatim>\<open>.env\<close> cannot be read.\<close>

definition env_template :: string where
  "env_template =
     concat (map (\<lambda>l. l @ [CHR 0x0A])
       [''# Zerodha API Configuration'',
        ''ZERODHA_API_KEY=your_api_key'',
        ''ZERODHA_API_SECRET=your_api_secret'',
        ''ZERODHA_ACCESS_TOKEN=your_access_token'',
        [],
        ''# Optional: Request timeout in milliseconds'',
        ''REQUEST_TIMEOUT=30000'',
        [],
        ''# Optional: Base URL for Zerodha API'',
        ''ZERODHA_BASE_URL=https://api.kite.trade''])"

text \<open>The text \<^verbatim>\<open>`ZERODHA_ACCESS_TOKEN=${accessToken}`\<close>, used as the replacement template
  and in the notice of the \<^verbatim>\<open>catch\<close> block.\<close>

definition token_line :: "jsval \<Rightarrow> string" where
  "token_line accessToken = ''ZERODHA_ACCESS_TOKEN='' @ to_string accessToken"

text \<open>The \<^verbatim>\<open>try\<close> block: read and decode (or fall back to the template), replace,
  encode and write.\<close>

definition updateEnvFile_try :: "outside \<Rightarrow> jsval \<Rightarrow> world \<Rightarrow> (js_error + unit) \<times> world" where
  "updateEnvFile_try out accessToken w =
     (let w1 = emit (ReadFile env_path) w;
          envContent = (case dotenv w of None \<Rightarrow> env_template | Some bytes \<Rightarrow> utf8_text bytes);
          updatedContent = replace_token_line envContent (token_line accessToken);
          w2 = emit (WriteFile env_path updatedContent) w1
      in case write_error out of
           Some e \<Rightarrow> (Inl e, w2)
         | None \<Rightarrow> (Inr (), w2\<lparr>dotenv := Some updatedContent\<rparr>))"

text \<open>The whole function: a failure is reported with the line to set by hand, and the
  promise resolves all the same.\<close>

definition updateEnvFile :: "outside \<Rightarrow> jsval \<Rightarrow> world \<Rightarrow> unit outcome \<times> world" where
  "updateEnvFile out accessToken w =
     (case updateEnvFile_try out accessToken w of
        (Inl e, w1) \<Rightarrow> (Resolved (), emit (ManualNotice (token_line accessToken)) w1)
      | (Inr u, w1) \<Rightarrow> (Resolved (), w1))"

subsection \<open>\<^verbatim>\<open>getValidAccessToken\<close>\<close>

definition placeholder_token :: string where
  "placeholder_token = ''your_access_token''"

text \<open>The second half of the function: the \<^verbatim>\<open>try\<close> block around the interactive
  authentication and the update of \<^verbatim>\<open>.env\<close>, and its \<^verbatim>\<open>catch\<close> block.\<close>

definition authenticate :: "outside \<Rightarrow> ZerodhaAuth \<Rightarrow> world \<Rightarrow> jsval outcome \<times> world" where
  "authenticate out auth w =
     (case interactiveAuth out auth w of
        (Pending, w1) \<Rightarrow> (Pending, w1)
      | (Rejected e, w1) \<Rightarrow> (Rejected (Error (''Authentication failed: '' @ message e)), w1)
      | (Resolved accessToken, w1) \<Rightarrow>
          (case updateEnvFile out accessToken w1 of
             (Pending, w2) \<Rightarrow> (Pending, w2)
           | (Rejected e, w2) \<Rightarrow>
               (Rejected (Error (''Authentication failed: '' @ message e)), w2)
           | (Resolved u, w2) \<Rightarrow> (Resolved accessToken, w2)))"

text \<open>\<open>existingToken\<close> is \<open>None\<close> when the argument is \<^verbatim>\<open>undefined\<close>. The test
  \<^verbatim>\<open>existingToken && existingToken !== 'your_access_token'\<close> fails for \<^verbatim>\<open>undefined\<close>, for
  the empty string and for the placeholder.\<close>

definition usable :: "string option \<Rightarrow> bool" where
  "usable existingToken =
     (case existingToken of None \<Rightarrow> False | Some t \<Rightarrow> t \<noteq> [] \<and> t \<noteq> placeholder_token)"

definition getValidAccessToken ::
  "outside \<Rightarrow> string \<Rightarrow> string \<Rightarrow> string option \<Rightarrow> world \<Rightarrow> jsval outcome \<times> world" where
  "getValidAccessToken out k s existingToken w =
     (let auth = new_ZerodhaAuth k s
      in if usable existingToken then
           (case validateAccessToken out k (the existingToken) default_base_url w of
              (Inl e, w1) \<Rightarrow> (Rejected e, w1)
            | (Inr isValid, w1) \<Rightarrow>
                if isValid then (Resolved (JStr (the existingToken)), w1)
                else authenticate out auth w1)
         else authenticate out auth w)"

subsection \<open>\<^verbatim>\<open>ZerodhaClient\<close> as constructed at server start\<close>

text \<open>A JavaScript object: its own properties in order of creation. A property can be
  present with the value \<^verbatim>\<open>undefined\<close>, which is not the same as being absent.\<close>

type_synonym js_object = "(string \<times> jsval) list"

definition obj_get :: "js_object \<Rightarrow> string \<Rightarrow> jsval" where
  "obj_get obj name = (case map_of obj name of None \<Rightarrow> JUndefined | Some v \<Rightarrow> v)"

fun obj_set :: "string \<Rightarrow> jsval \<Rightarrow> js_object \<Rightarrow> js_object" where
  "obj_set name v [] = [(name, v)]"
| "obj_set name v ((n, x) # obj) =
     (if n = name then (n, v) # obj else (n, x) # obj_set name v obj)"

text \<open>Object spread \<^verbatim>\<open>{...base, ...src}\<close>: every own property of \<open>src\<close> is copied over,
  whatever its value.\<close>

definition spread_into :: "js_object \<Rightarrow> js_object \<Rightarrow> js_object" where
  "spread_into base src = foldl (\<lambda>acc (n, v). obj_set n v acc) base src"

text \<open>A value of \<^verbatim>\<open>process.env\<close>: a string, or \<^verbatim>\<open>undefined\<close> when the variable is not set.\<close>

definition env_value :: "string option \<Rightarrow> jsval" where
  "env_value v = (case v of None \<Rightarrow> JUndefined | Some s \<Rightarrow> JStr s)"

text \<open>
  The \<^verbatim>\<open>config\<close> object literal of \<^verbatim>\<open>initializeZerodhaClient\<close>. The environment is
  \<open>penv\<close>; \<^verbatim>\<open>parseInt\<close> is a parameter.
\<close>

definition startup_config ::
  "(string \<Rightarrow> jsval) \<Rightarrow> (string \<Rightarrow> string option) \<Rightarrow> string \<Rightarrow> string \<Rightarrow> jsval \<Rightarrow> js_object" where
  "startup_config parseInt penv k s accessToken =
     [(''apiKey'', JStr k),
      (''apiSecret'', JStr s),
      (''accessToken'', accessToken),
      (''baseUrl'', env_value (penv ''ZERODHA_BASE_URL'')),
      (''timeout'',
         if truthy (env_value (penv ''REQUEST_TIMEOUT''))
         then parseInt (the (penv ''REQUEST_TIMEOUT'')) else JUndefined)]"

text \<open>The argument of \<^verbatim>\<open>axios.create\<close>.\<close>

record axios_config =
  baseURL :: jsval
  timeout :: jsval
  headers :: "(string \<times> string) list"

record ZerodhaClient =
  config :: js_object
  client :: axios_config

text \<open>The constructor: \<^verbatim>\<open>this.config = {baseUrl: \<dots>, timeout: 30000, ...config}\<close>, then
  \<^verbatim>\<open>axios.create\<close> with the merged values.\<close>

definition new_ZerodhaClient :: "js_object \<Rightarrow> ZerodhaClient" where
  "new_ZerodhaClient cfg =
     (let merged = spread_into
                     [(''baseUrl'', JStr ''https://api.kite.trade''), (''timeout'', JNum ''30000'')]
                     cfg
      in \<lparr>config = merged,
          client = \<lparr>baseURL = obj_get merged ''baseUrl'',
                    timeout = obj_get merged ''timeout'',
                    headers =
                      [(''X-Kite-Version'', ''3''),
                       (''Authorization'',
                          ''token '' @ to_string (obj_get merged ''apiKey'') @ '':''
                          @ to_string (obj_get merged ''accessToken'')),
                       (''Content-Type'', ''application/x-www-form-urlencoded'')]\<rparr>\<rparr>)"

subsection \<open>Observing a run\<close>

text \<open>The events a run added to the trace: those of the final world after the ones that
  were there at the start.\<close>

definition new_events :: "world \<Rightarrow> world \<Rightarrow> event list" where
  "new_events w w' = drop (length (trace w)) (trace w')"

fun is_get :: "event \<Rightarrow> bool" where
  "is_get (HttpGet u h t) = True"
| "is_get _ = False"

fun is_post :: "event \<Rightarrow> bool" where
  "is_post (HttpPost u h b t) = True"
| "is_post _ = False"

fun is_question :: "event \<Rightarrow> bool" where
  "is_question (Question q) = True"
| "is_question _ = False"

fun is_write :: "event \<Rightarrow> bool" where
  "is_write (WriteFile p c) = True"
| "is_write _ = False"

text \<open>The profile request completed and the \<^verbatim>\<open>status\<close> of the received object is the
  string \<^verbatim>\<open>success\<close>.\<close>

fun reports_success :: "js_error + jsval \<Rightarrow> bool" where
  "reports_success (Inr (JObj kvs)) = (map_of kvs ''status'' = Some (JStr ''success''))"
| "reports_success _ = False"

definition profile_headers :: "string \<Rightarrow> string \<Rightarrow> (string \<times> string) list" where
  "profile_headers k accessToken =
     [(''Authorization'', ''token '' @ k @ '':'' @ accessToken), (''X-Kite-Version'', ''3'')]"

text \<open>The content \<^verbatim>\<open>updateEnvFile\<close> writes for a token, given the world it starts in.\<close>

definition written_content :: "world \<Rightarrow> jsval \<Rightarrow> string" where
  "written_content w accessToken =
     replace_token_line
       (case dotenv w of None \<Rightarrow> env_template | Some bytes \<Rightarrow> utf8_text bytes)
       (token_line accessToken)"

text \<open>The pasted line passes the test of \<^verbatim>\<open>interactiveAuth\<close>.\<close>

definition non_blank :: "string option \<Rightarrow> bool" where
  "non_blank line = (case line of None \<Rightarrow> False | Some p \<Rightarrow> p \<noteq> [] \<and> trim p \<noteq> [])"

text \<open>The events of one interactive authentication, and of one update of
  \<^verbatim>\<open>.env\<close> started in world \<open>w\<close>.\<close>

definition exchange_events :: "outside \<Rightarrow> ZerodhaAuth \<Rightarrow> event list" where
  "exchange_events out auth =
     [LoginUrlShown (getLoginUrl auth), Question question_text]
     @ (if non_blank (pasted out) then [exchange_post auth (trim (the (pasted out)))] else [])"

definition persist_events :: "outside \<Rightarrow> world \<Rightarrow> jsval \<Rightarrow> event list" where
  "persist_events out w accessToken =
     [ReadFile env_path, WriteFile env_path (written_content w accessToken)]
     @ (case write_error out of None \<Rightarrow> [] | Some e \<Rightarrow> [ManualNotice (token_line accessToken)])"

text \<open>A string made of white space only: a sequence of code points of \<open>js_whitespace\<close>.\<close>

inductive whitespace_only :: "string \<Rightarrow> bool" where
  empty: "whitespace_only []"
| more: "x \<in> set js_whitespace \<Longrightarrow> whitespace_only s \<Longrightarrow> whitespace_only (x @ s)"

text \<open>The length of the UTF-8 sequence that a lead byte announces.\<close>

definition utf8_len :: "char \<Rightarrow> nat" where
  "utf8_len c =
     (let n = (of_char c :: nat)
      in if n < 128 then 1 else if n < 224 then 2 else if n < 240 then 3 else 4)"

subsection \<open>Concrete scenarios\<close>

text \<open>An outside where the probe times out, the exchange succeeds with the token
  \<^verbatim>\<open>newTok\<close>, and the operator pastes \<^verbatim>\<open>tok123\<close> between spaces.\<close>

definition out0 :: outside where
  "out0 = \<lparr>http_get = (\<lambda>u h. Inl (AxiosError None ''timeout of 10000ms exceeded'')),
           http_post = (\<lambda>u b. Inr (JObj [(''status'', JStr ''success''),
                          (''data'', JObj [(''access_token'', JStr ''newTok'')])])),
           pasted = Some '' tok123 '',
           write_error = None\<rparr>"

text \<open>An outside where the probe succeeds, the exchange fails, and the operator pastes
  a space and a tab.\<close>

definition out1 :: outside where
  "out1 = \<lparr>http_get = (\<lambda>u h. Inr (JObj [(''status'', JStr ''success'')])),
           http_post = (\<lambda>u b. Inl (AxiosError None ''Network Error'')),
           pasted = Some [CHR '' '', CHR 0x09],
           write_error = None\<rparr>"

text \<open>A world with an empty trace and a two-line \<^verbatim>\<open>.env\<close>.\<close>

definition w0 :: world where
  "w0 = \<lparr>trace = [],
          dotenv = Some (''ZERODHA_API_KEY=abc'' @ [CHR 0x0A]
                         @ ''ZERODHA_ACCESS_TOKEN=old'' @ [CHR 0x0A])\<rparr>"

text \<open>The \<^verbatim>\<open>.env\<close> that the README tells the operator to create: the access token
  is mentioned in a comment only.\<close>

definition readme_env :: string where
  "readme_env =
     concat (map (\<lambda>l. l @ [CHR 0x0A])
       [''ZERODHA_API_KEY=your_api_key'',
        ''ZERODHA_API_SECRET=your_api_secret'',
        ''# ZERODHA_ACCESS_TOKEN will be generated automatically''])"

text \<open>A \<^verbatim>\<open>.env\<close> with two access-token lines.\<close>

definition two_line_env :: string where
  "two_line_env =
     concat (map (\<lambda>l. l @ [CHR 0x0A])
       [''ZERODHA_ACCESS_TOKEN=old1'', ''REQUEST_TIMEOUT=30000'', ''ZERODHA_ACCESS_TOKEN=old2''])"

text \<open>A \<^verbatim>\<open>.env\<close> saved in Latin-1: the byte \<^verbatim>\<open>E9\<close> is not well-formed UTF-8.\<close>

definition latin1_env :: string where
  "latin1_env = ''NAME=caf'' @ [CHR 0xE9, CHR 0x0A]"

text \<open>An environment that sets the key and the secret and nothing else.\<close>

definition bare_env :: "string \<Rightarrow> string option" where
  "bare_env name =
     (if name = ''ZERODHA_API_KEY'' then Some ''abc''
      else if name = ''ZERODHA_API_SECRET'' then Some ''xyz''
      else None)"

section \<open>Properties\<close>

subsection \<open>Events and worlds of the single functions\<close>

lemma trace_emit: "trace (emit e w) = trace w @ [e]"
  by (simp add: emit_def)

lemma dotenv_emit: "dotenv (emit e w) = dotenv w"
  by (simp add: emit_def)

lemma new_events_append: "trace w' = trace w @ evs \<Longrightarrow> new_events w w' = evs"
  by (simp add: new_events_def)

lemma validateAccessToken_world:
  "snd (validateAccessToken out k t base w) = emit (profile_get k t base) w"
  by (simp add: validateAccessToken_def validateAccessToken_try_def Let_def
      split: sum.splits)

lemma get_prop_status:
  "(case get_prop d ''status'' of Inl e \<Rightarrow> False | Inr st \<Rightarrow> st = JStr ''success'')
     = reports_success (Inr d)"
  by (cases d) (auto split: option.splits)

lemma validateAccessToken_result:
  "fst (validateAccessToken out k t base w)
     = Inr (reports_success (http_get out (base @ ''/user/profile'') (profile_headers k t)))"
proof (cases "http_get out (base @ ''/user/profile'') (profile_headers k t)")
  case (Inl e)
  then show ?thesis
    by (simp add: validateAccessToken_def validateAccessToken_try_def profile_headers_def)
next
  case (Inr d)
  then show ?thesis
    using get_prop_status [of d]
    by (simp add: validateAccessToken_def validateAccessToken_try_def profile_headers_def
        split: sum.splits)
qed

lemma generateAccessToken_world:
  "snd (generateAccessToken out auth r w) = emit (exchange_post auth r) w"
  by (simp add: generateAccessToken_def generateAccessToken_try_def Let_def
      split: sum.splits prod.splits)

lemma interactiveAuth_world:
  "snd (interactiveAuth out auth w) =
     (let w1 = emit (Question question_text) (emit (LoginUrlShown (getLoginUrl auth)) w)
      in if non_blank (pasted out) then emit (exchange_post auth (trim (the (pasted out)))) w1
         else w1)"
proof (cases "pasted out")
  case None
  then show ?thesis by (simp add: interactiveAuth_def non_blank_def)
next
  case (Some p)
  show ?thesis
  proof (cases "p = [] \<or> trim p = []")
    case True
    with Some show ?thesis by (auto simp add: interactiveAuth_def non_blank_def)
  next
    case False
    obtain r w2 where g: "generateAccessToken out auth (trim p)
        (emit (Question question_text) (emit (LoginUrlShown (getLoginUrl auth)) w)) = (r, w2)"
      by (cases "generateAccessToken out auth (trim p)
        (emit (Question question_text) (emit (LoginUrlShown (getLoginUrl auth)) w))")
    from g have w2: "w2 = emit (exchange_post auth (trim p))
        (emit (Question question_text) (emit (LoginUrlShown (getLoginUrl auth)) w))"
      using generateAccessToken_world [of out auth "trim p"
          "emit (Question question_text) (emit (LoginUrlShown (getLoginUrl auth)) w)"]
      by simp
    from Some False g w2 show ?thesis
      by (auto simp add: interactiveAuth_def non_blank_def Let_def split: sum.splits)
  qed
qed

lemma interactiveAuth_blank:
  "\<not> non_blank (pasted out) \<Longrightarrow> \<forall>v. fst (interactiveAuth out auth w) \<noteq> Resolved v"
  by (auto simp add: interactiveAuth_def non_blank_def Let_def split: option.splits)

lemma updateEnvFile_result: "fst (updateEnvFile out tok w) = Resolved ()"
  by (simp add: updateEnvFile_def updateEnvFile_try_def Let_def split: option.splits)

lemma updateEnvFile_trace:
  "trace (snd (updateEnvFile out tok w)) =
     trace w @ [ReadFile env_path, WriteFile env_path (written_content w tok)]
       @ (case write_error out of None \<Rightarrow> [] | Some e \<Rightarrow> [ManualNotice (token_line tok)])"
  by (simp add: updateEnvFile_def updateEnvFile_try_def Let_def written_content_def
      trace_emit split: option.splits)

lemma updateEnvFile_dotenv:
  "dotenv (snd (updateEnvFile out tok w)) =
     (case write_error out of None \<Rightarrow> Some (written_content w tok) | Some e \<Rightarrow> dotenv w)"
  by (simp add: updateEnvFile_def updateEnvFile_try_def Let_def written_content_def
      dotenv_emit split: option.splits)


lemma interactiveAuth_trace:
  "trace (snd (interactiveAuth out auth w)) = trace w @ exchange_events out auth"
  by (simp add: interactiveAuth_world exchange_events_def Let_def trace_emit)

lemma interactiveAuth_dotenv:
  "dotenv (snd (interactiveAuth out auth w)) = dotenv w"
  by (simp add: interactiveAuth_world Let_def dotenv_emit)

lemma written_content_cong: "dotenv w1 = dotenv w \<Longrightarrow> written_content w1 tok = written_content w tok"
  by (simp add: written_content_def)

lemma persist_events_cong: "dotenv w1 = dotenv w \<Longrightarrow> persist_events out w1 tok = persist_events out w tok"
  using written_content_cong [of w1 w tok] by (simp add: persist_events_def)

lemma authenticate_result:
  "fst (authenticate out auth w) =
     (case fst (interactiveAuth out auth w) of
        Resolved tok \<Rightarrow> Resolved tok
      | Rejected e \<Rightarrow> Rejected (Error (''Authentication failed: '' @ message e))
      | Pending \<Rightarrow> Pending)"
proof (cases "interactiveAuth out auth w")
  case (Pair r w1)
  show ?thesis
  proof (cases r)
    case (Resolved tok)
    with Pair show ?thesis
      using updateEnvFile_result [of out tok w1]
      by (cases "updateEnvFile out tok w1") (simp add: authenticate_def)
  qed (use Pair in \<open>simp_all add: authenticate_def\<close>)
qed

lemma authenticate_trace:
  "trace (snd (authenticate out auth w)) =
     trace w @ exchange_events out auth
       @ (case fst (interactiveAuth out auth w) of
            Resolved tok \<Rightarrow> persist_events out w tok
          | _ \<Rightarrow> [])"
proof (cases "interactiveAuth out auth w")
  case (Pair r w1)
  then have t1: "trace w1 = trace w @ exchange_events out auth" and d1: "dotenv w1 = dotenv w"
    using interactiveAuth_trace [of out auth w] interactiveAuth_dotenv [of out auth w]
    by simp_all
  show ?thesis
  proof (cases r)
    case (Resolved tok)
    obtain u w2 where up: "updateEnvFile out tok w1 = (u, w2)"
      by (cases "updateEnvFile out tok w1")
    then have "u = Resolved ()" and "trace w2 = trace w1 @ persist_events out w1 tok"
      using updateEnvFile_result [of out tok w1] updateEnvFile_trace [of out tok w1]
      by (simp_all add: persist_events_def)
    with Pair Resolved up t1 persist_events_cong [OF d1, of out tok] show ?thesis
      by (simp add: authenticate_def)
  qed (use Pair t1 in \<open>simp_all add: authenticate_def\<close>)
qed

lemma authenticate_dotenv:
  "dotenv (snd (authenticate out auth w)) =
     (case fst (interactiveAuth out auth w) of
        Resolved tok \<Rightarrow>
          (case write_error out of None \<Rightarrow> Some (written_content w tok) | Some e \<Rightarrow> dotenv w)
      | _ \<Rightarrow> dotenv w)"
proof (cases "interactiveAuth out auth w")
  case (Pair r w1)
  then have d1: "dotenv w1 = dotenv w"
    using interactiveAuth_dotenv [of out auth w] by simp
  show ?thesis
  proof (cases r)
    case (Resolved tok)
    obtain u w2 where up: "updateEnvFile out tok w1 = (u, w2)"
      by (cases "updateEnvFile out tok w1")
    then have "u = Resolved ()"
      and "dotenv w2 = (case write_error out of None \<Rightarrow> Some (written_content w1 tok)
                        | Some e \<Rightarrow> dotenv w1)"
      using updateEnvFile_result [of out tok w1] updateEnvFile_dotenv [of out tok w1]
      by simp_all
    with Pair Resolved up d1 written_content_cong [OF d1, of tok] show ?thesis
      by (simp add: authenticate_def split: option.splits)
  qed (use Pair d1 in \<open>simp_all add: authenticate_def\<close>)
qed

lemma exchange_events_question:
  "length (filter is_question (exchange_events out auth)) = 1"
  by (simp add: exchange_events_def exchange_post_def)

lemma exchange_events_post:
  "filter is_post (exchange_events out auth) =
     (if non_blank (pasted out) then [exchange_post auth (trim (the (pasted out)))] else [])"
  by (simp add: exchange_events_def exchange_post_def)

lemma exchange_events_no_get: "filter is_get (exchange_events out auth) = []"
  by (simp add: exchange_events_def exchange_post_def)

lemma exchange_events_no_write: "filter is_write (exchange_events out auth) = []"
  by (simp add: exchange_events_def exchange_post_def)

lemma persist_events_filters:
  "filter is_question (persist_events out w tok) = []"
  "filter is_post (persist_events out w tok) = []"
  "filter is_get (persist_events out w tok) = []"
  "filter is_write (persist_events out w tok) = [WriteFile env_path (written_content w tok)]"
  by (simp_all add: persist_events_def split: option.splits)

subsection \<open>The resolver\<close>

lemma generateAccessToken_fst:
  "fst (generateAccessToken out auth r w) = fst (generateAccessToken out auth r w')"
  by (simp add: generateAccessToken_def generateAccessToken_try_def Let_def
      split: sum.splits prod.splits)

lemma interactiveAuth_fst:
  "fst (interactiveAuth out auth w) = fst (interactiveAuth out auth w')"
proof (cases "pasted out")
  case None
  then show ?thesis by (simp add: interactiveAuth_def)
next
  case (Some p)
  show ?thesis
  proof (cases "p = [] \<or> trim p = []")
    case True
    with Some show ?thesis by (auto simp add: interactiveAuth_def)
  next
    case False
    let ?w1 = "emit (Question question_text) (emit (LoginUrlShown (getLoginUrl auth)) w)"
    let ?w1' = "emit (Question question_text) (emit (LoginUrlShown (getLoginUrl auth)) w')"
    have "fst (generateAccessToken out auth (trim p) ?w1)
        = fst (generateAccessToken out auth (trim p) ?w1')"
      by (rule generateAccessToken_fst)
    with Some False show ?thesis
      by (cases "generateAccessToken out auth (trim p) ?w1";
          cases "generateAccessToken out auth (trim p) ?w1'")
        (auto simp add: interactiveAuth_def Let_def split: sum.splits)
  qed
qed

lemma interactiveAuth_resolved_non_blank:
  "fst (interactiveAuth out auth w) = Resolved tok \<Longrightarrow> non_blank (pasted out)"
  using interactiveAuth_blank [of out auth w] by blast

lemma getValidAccessToken_unusable:
  "\<not> usable existingToken \<Longrightarrow>
     getValidAccessToken out k s existingToken w = authenticate out (new_ZerodhaAuth k s) w"
  by (simp add: getValidAccessToken_def)

lemma getValidAccessToken_invalid:
  assumes "usable existingToken"
    and "fst (validateAccessToken out k (the existingToken) default_base_url w) = Inr False"
  shows "getValidAccessToken out k s existingToken w =
           authenticate out (new_ZerodhaAuth k s)
             (emit (profile_get k (the existingToken) default_base_url) w)"
  using assms validateAccessToken_world [of out k "the existingToken" default_base_url w]
  by (cases "validateAccessToken out k (the existingToken) default_base_url w")
    (simp add: getValidAccessToken_def)

lemma getValidAccessToken_valid:
  assumes "usable existingToken"
    and "fst (validateAccessToken out k (the existingToken) default_base_url w) = Inr True"
  shows "getValidAccessToken out k s existingToken w =
           (Resolved (JStr (the existingToken)),
            emit (profile_get k (the existingToken) default_base_url) w)"
  using assms validateAccessToken_world [of out k "the existingToken" default_base_url w]
  by (cases "validateAccessToken out k (the existingToken) default_base_url w")
    (simp add: getValidAccessToken_def)

text \<open>The events of a run that goes through the interactive authentication.\<close>

lemma getValidAccessToken_exchange_events:
  assumes "\<not> usable existingToken \<or>
           fst (validateAccessToken out k (the existingToken) default_base_url w) = Inr False"
  shows "new_events w (snd (getValidAccessToken out k s existingToken w)) =
           (if usable existingToken then [profile_get k (the existingToken) default_base_url]
            else [])
           @ exchange_events out (new_ZerodhaAuth k s)
           @ (case fst (getValidAccessToken out k s existingToken w) of
                Resolved tok \<Rightarrow> persist_events out w tok
              | _ \<Rightarrow> [])"
proof (cases "usable existingToken")
  case False
  let ?auth = "new_ZerodhaAuth k s"
  have "(case fst (authenticate out ?auth w) of Resolved tok \<Rightarrow> persist_events out w tok
         | _ \<Rightarrow> [])
      = (case fst (interactiveAuth out ?auth w) of Resolved tok \<Rightarrow> persist_events out w tok
         | _ \<Rightarrow> [])"
    by (simp add: authenticate_result split: outcome.splits)
  with False show ?thesis
    by (simp add: getValidAccessToken_unusable new_events_def authenticate_trace)
next
  case True
  let ?auth = "new_ZerodhaAuth k s"
  let ?w1 = "emit (profile_get k (the existingToken) default_base_url) w"
  from True assms
  have inv: "fst (validateAccessToken out k (the existingToken) default_base_url w) = Inr False"
    by simp
  have d: "dotenv ?w1 = dotenv w" by (simp add: dotenv_emit)
  have "(case fst (authenticate out ?auth ?w1) of Resolved tok \<Rightarrow> persist_events out w tok
         | _ \<Rightarrow> [])
      = (case fst (interactiveAuth out ?auth ?w1) of
           Resolved tok \<Rightarrow> persist_events out ?w1 tok
         | _ \<Rightarrow> [])"
    using persist_events_cong [OF d, of out]
    by (simp add: authenticate_result split: outcome.splits)
  with True show ?thesis
    by (simp add: getValidAccessToken_invalid [OF True inv] new_events_def
        authenticate_trace trace_emit)
qed

lemma getValidAccessToken_exchange_dotenv:
  assumes "\<not> usable existingToken \<or>
           fst (validateAccessToken out k (the existingToken) default_base_url w) = Inr False"
    and "fst (getValidAccessToken out k s existingToken w) = Resolved tok"
    and "write_error out = None"
  shows "dotenv (snd (getValidAccessToken out k s existingToken w))
           = Some (written_content w tok)"
proof (cases "usable existingToken")
  case False
  with assms(2) have "fst (interactiveAuth out (new_ZerodhaAuth k s) w) = Resolved tok"
    by (simp add: getValidAccessToken_unusable authenticate_result split: outcome.splits)
  with False assms(3) show ?thesis
    by (simp add: getValidAccessToken_unusable authenticate_dotenv)
next
  case True
  let ?auth = "new_ZerodhaAuth k s"
  let ?w1 = "emit (profile_get k (the existingToken) default_base_url) w"
  from True assms(1)
  have inv: "fst (validateAccessToken out k (the existingToken) default_base_url w) = Inr False"
    by simp
  have d: "dotenv ?w1 = dotenv w" by (simp add: dotenv_emit)
  from assms(2) have "fst (interactiveAuth out ?auth ?w1) = Resolved tok"
    by (simp add: getValidAccessToken_invalid [OF True inv] authenticate_result
        split: outcome.splits)
  with assms(3) written_content_cong [OF d, of tok] show ?thesis
    by (simp add: getValidAccessToken_invalid [OF True inv] authenticate_dotenv)
qed

lemma getValidAccessToken_resolved_non_blank:
  assumes "\<not> usable existingToken \<or>
           fst (validateAccessToken out k (the existingToken) default_base_url w) = Inr False"
    and "fst (getValidAccessToken out k s existingToken w) = Resolved tok"
  shows "non_blank (pasted out)"
proof (cases "usable existingToken")
  case False
  with assms(2) have "fst (interactiveAuth out (new_ZerodhaAuth k s) w) = Resolved tok"
    by (simp add: getValidAccessToken_unusable authenticate_result split: outcome.splits)
  then show ?thesis by (rule interactiveAuth_resolved_non_blank)
next
  case True
  from True assms(1)
  have inv: "fst (validateAccessToken out k (the existingToken) default_base_url w) = Inr False"
    by simp
  from assms(2)
  have "fst (interactiveAuth out (new_ZerodhaAuth k s)
               (emit (profile_get k (the existingToken) default_base_url) w)) = Resolved tok"
    by (simp add: getValidAccessToken_invalid [OF True inv] authenticate_result
        split: outcome.splits)
  then show ?thesis by (rule interactiveAuth_resolved_non_blank)
qed

text \<open>The definitions to unfold when a run is evaluated on concrete inputs.\<close>

lemmas utf8_eval = in_range_def replacement_char_def cont_lower_def cont_upper_def

lemmas run_defs = getValidAccessToken_def usable_def placeholder_token_def
  validateAccessToken_def validateAccessToken_try_def authenticate_def interactiveAuth_def
  generateAccessToken_def generateAccessToken_try_def updateEnvFile_def updateEnvFile_try_def
  trim_def trimStart_def trimEnd_def js_whitespace_def strip_any.simps Let_def
  new_ZerodhaAuth_def default_base_url_def utf8_eval

text \<open>
  Claim C1. Whenever the existing token is not usable, or the probe reports it invalid, a
  run of \<^verbatim>\<open>getValidAccessToken\<close> makes exactly one token-exchange attempt: the interactive
  authentication is started once (one question is asked) and at most one POST is sent.
  When the run resolves with a token, exactly one POST was sent and exactly one write of
  \<^verbatim>\<open>.env\<close> was made, with the content that \<^verbatim>\<open>updateEnvFile\<close> computes for this token; the
  events of that update are the last events of the run, so the update is complete when the
  token is returned; and if the write did not fail, \<^verbatim>\<open>.env\<close> holds that content.
\<close>

theorem resolver_exchanges_once_and_persists:
  assumes "\<not> usable existingToken \<or>
           fst (validateAccessToken out k (the existingToken) default_base_url w) = Inr False"
  shows "length (filter is_question
            (new_events w (snd (getValidAccessToken out k s existingToken w)))) = 1
       \<and> length (filter is_post
            (new_events w (snd (getValidAccessToken out k s existingToken w)))) \<le> 1
       \<and> (\<forall>tok. fst (getValidAccessToken out k s existingToken w) = Resolved tok \<longrightarrow>
            filter is_post (new_events w (snd (getValidAccessToken out k s existingToken w)))
              = [exchange_post (new_ZerodhaAuth k s) (trim (the (pasted out)))]
          \<and> filter is_write (new_events w (snd (getValidAccessToken out k s existingToken w)))
              = [WriteFile env_path (written_content w tok)]
          \<and> (\<exists>before. new_events w (snd (getValidAccessToken out k s existingToken w))
                = before @ persist_events out w tok)
          \<and> (write_error out = None \<longrightarrow>
                dotenv (snd (getValidAccessToken out k s existingToken w))
                  = Some (written_content w tok)))"
proof -
  let ?run = "getValidAccessToken out k s existingToken w"
  let ?evs = "new_events w (snd ?run)"
  let ?auth = "new_ZerodhaAuth k s"
  note evs = getValidAccessToken_exchange_events [OF assms, of s]
  have q: "length (filter is_question ?evs) = 1"
    by (simp add: evs exchange_events_question persist_events_filters profile_get_def
        split: outcome.splits)
  have p: "filter is_post ?evs = filter is_post (exchange_events out ?auth)"
    by (simp add: evs persist_events_filters profile_get_def split: outcome.splits)
  have p1: "length (filter is_post ?evs) \<le> 1"
    by (simp add: p exchange_events_post)
  have s: "filter is_post ?evs = [exchange_post ?auth (trim (the (pasted out)))]
         \<and> filter is_write ?evs = [WriteFile env_path (written_content w tok)]
         \<and> (\<exists>before. ?evs = before @ persist_events out w tok)
         \<and> (write_error out = None \<longrightarrow> dotenv (snd ?run) = Some (written_content w tok))"
    if res: "fst ?run = Resolved tok" for tok
  proof -
    have nb: "non_blank (pasted out)"
      using getValidAccessToken_resolved_non_blank [OF assms res] .
    have a: "filter is_post ?evs = [exchange_post ?auth (trim (the (pasted out)))]"
      using nb by (simp add: p exchange_events_post)
    have b: "filter is_write ?evs = [WriteFile env_path (written_content w tok)]"
      by (simp add: evs res exchange_events_no_write persist_events_filters profile_get_def)
    have c: "\<exists>before. ?evs = before @ persist_events out w tok"
      by (simp add: evs res)
    have d: "write_error out = None \<longrightarrow> dotenv (snd ?run) = Some (written_content w tok)"
      using getValidAccessToken_exchange_dotenv [OF assms res] by simp
    from a b c d show ?thesis by simp
  qed
  from q p1 s show ?thesis by blast
qed

theorem resolver_exchanges_once_and_persists_witness:
  "fst (validateAccessToken out0 ''abc'' (the (Some ''stale'')) default_base_url w0) = Inr False
   \<and> fst (getValidAccessToken out0 ''abc'' ''xyz'' (Some ''stale'') w0) = Resolved (JStr ''newTok'')
   \<and> length (filter is_question
        (new_events w0 (snd (getValidAccessToken out0 ''abc'' ''xyz'' (Some ''stale'') w0)))) = 1
   \<and> filter is_post
        (new_events w0 (snd (getValidAccessToken out0 ''abc'' ''xyz'' (Some ''stale'') w0)))
       = [exchange_post (new_ZerodhaAuth ''abc'' ''xyz'') ''tok123'']
   \<and> filter is_write
        (new_events w0 (snd (getValidAccessToken out0 ''abc'' ''xyz'' (Some ''stale'') w0)))
       = [WriteFile ''.env'' (''ZERODHA_API_KEY=abc'' @ [CHR 0x0A]
                              @ ''ZERODHA_ACCESS_TOKEN=newTok'' @ [CHR 0x0A])]
   \<and> dotenv (snd (getValidAccessToken out0 ''abc'' ''xyz'' (Some ''stale'') w0))
       = Some (''ZERODHA_API_KEY=abc'' @ [CHR 0x0A] @ ''ZERODHA_ACCESS_TOKEN=newTok'' @ [CHR 0x0A])"
proof -
  have h: "fst (validateAccessToken out0 ''abc'' (the (Some ''stale'')) default_base_url w0)
             = Inr False"
    by (simp add: validateAccessToken_def validateAccessToken_try_def out0_def)
  have r: "fst (getValidAccessToken out0 ''abc'' ''xyz'' (Some ''stale'') w0)
             = Resolved (JStr ''newTok'')"
    by (simp add: run_defs out0_def)
  have t: "trim (the (pasted out0)) = ''tok123''"
    by (simp add: out0_def trim_def trimStart_def trimEnd_def js_whitespace_def
        strip_any.simps)
  have c: "written_content w0 (JStr ''newTok'')
             = ''ZERODHA_API_KEY=abc'' @ [CHR 0x0A] @ ''ZERODHA_ACCESS_TOKEN=newTok'' @ [CHR 0x0A]"
    by (simp add: written_content_def w0_def utf8_eval replace_token_line_def
        match_token_line_def token_key_def token_line_def line_terminators_def)
  have e: "write_error out0 = None" by (simp add: out0_def)
  show ?thesis
    using resolver_exchanges_once_and_persists
      [of "Some ''stale''" out0 "''abc''" w0 "''xyz''", OF disjI2 [OF h]] h r t c e
    by (simp add: env_path_def)
qed

subsection \<open>The validation probe\<close>

text \<open>
  Claim C5. For every key, token, base URL and every answer of the outside,
  \<^verbatim>\<open>validateAccessToken\<close> returns a boolean and never throws: \<^verbatim>\<open>true\<close> exactly when the
  request completed and the \<^verbatim>\<open>status\<close> of the received object is the string
  \<^verbatim>\<open>success\<close>, \<^verbatim>\<open>false\<close> for every error and every other response. It makes the one
  GET request and changes nothing else.
\<close>

theorem probe_never_throws:
  "validateAccessToken out k accessToken base w =
     (Inr (reports_success
             (http_get out (base @ ''/user/profile'') (profile_headers k accessToken))),
      emit (profile_get k accessToken base) w)"
  using validateAccessToken_result [of out k accessToken base w]
    validateAccessToken_world [of out k accessToken base w]
  by (cases "validateAccessToken out k accessToken base w") simp

subsection \<open>The resolver with a valid token, and without a token\<close>

text \<open>
  Claim C3. When the existing token is present (not empty), is not the placeholder, and the
  probe returns \<^verbatim>\<open>true\<close> for it, \<^verbatim>\<open>getValidAccessToken\<close> resolves with exactly this
  string; the only event of the run is the GET of the probe: no POST, no write, and
  \<^verbatim>\<open>.env\<close> is unchanged.
\<close>

theorem resolver_keeps_valid_token:
  assumes "t \<noteq> []" and "t \<noteq> ''your_access_token''"
    and "fst (validateAccessToken out k t default_base_url w) = Inr True"
  shows "getValidAccessToken out k s (Some t) w =
           (Resolved (JStr t), w\<lparr>trace := trace w @ [profile_get k t default_base_url]\<rparr>)
       \<and> filter is_post (new_events w (snd (getValidAccessToken out k s (Some t) w))) = []
       \<and> filter is_write (new_events w (snd (getValidAccessToken out k s (Some t) w))) = []
       \<and> dotenv (snd (getValidAccessToken out k s (Some t) w)) = dotenv w"
proof -
  from assms(1,2) have u: "usable (Some t)"
    by (simp add: usable_def placeholder_token_def)
  from assms(3) have v: "fst (validateAccessToken out k (the (Some t)) default_base_url w) = Inr True"
    by simp
  show ?thesis
    by (simp add: getValidAccessToken_valid [OF u v] emit_def new_events_def profile_get_def)
qed

theorem resolver_keeps_valid_token_witness:
  "''validTok'' \<noteq> [] \<and> ''validTok'' \<noteq> ''your_access_token''
   \<and> fst (validateAccessToken out1 ''abc'' ''validTok'' default_base_url w0) = Inr True
   \<and> fst (getValidAccessToken out1 ''abc'' ''xyz'' (Some ''validTok'') w0)
       = Resolved (JStr ''validTok'')
   \<and> filter is_post
       (new_events w0 (snd (getValidAccessToken out1 ''abc'' ''xyz'' (Some ''validTok'') w0))) = []"
proof -
  have h: "fst (validateAccessToken out1 ''abc'' ''validTok'' default_base_url w0) = Inr True"
    by (simp add: validateAccessToken_def validateAccessToken_try_def out1_def)
  show ?thesis
    using resolver_keeps_valid_token [of "''validTok''" out1 "''abc''" w0 "''xyz''"] h
    by (simp add: new_events_def profile_get_def)
qed

text \<open>
  Claim C4. When \<open>existingToken\<close> is absent or equals \<^verbatim>\<open>your_access_token\<close>, the run
  makes no GET request (every call of \<^verbatim>\<open>validateAccessToken\<close> makes one, so the probe is
  not called) and starts directly with the interactive authentication: its first two
  events are the login URL and the question.
\<close>

theorem resolver_skips_probe_without_token:
  assumes "existingToken = None \<or> existingToken = Some ''your_access_token''"
  shows "filter is_get (new_events w (snd (getValidAccessToken out k s existingToken w))) = []
       \<and> take 2 (new_events w (snd (getValidAccessToken out k s existingToken w)))
           = [LoginUrlShown (getLoginUrl (new_ZerodhaAuth k s)), Question question_text]"
proof -
  from assms have u: "\<not> usable existingToken"
    by (auto simp add: usable_def placeholder_token_def)
  have evs: "new_events w (snd (getValidAccessToken out k s existingToken w)) =
      exchange_events out (new_ZerodhaAuth k s)
      @ (case fst (getValidAccessToken out k s existingToken w) of
           Resolved tok \<Rightarrow> persist_events out w tok | _ \<Rightarrow> [])"
    using getValidAccessToken_exchange_events [of existingToken out k w s] u by simp
  show ?thesis
    by (simp add: evs exchange_events_no_get persist_events_filters split: outcome.splits)
      (simp add: exchange_events_def)
qed

theorem resolver_skips_probe_without_token_witness:
  "(Some ''your_access_token'' = None \<or> Some ''your_access_token'' = Some ''your_access_token'')
   \<and> filter is_get (new_events w0
        (snd (getValidAccessToken out1 ''abc'' ''xyz'' (Some ''your_access_token'') w0))) = []
   \<and> fst (getValidAccessToken out1 ''abc'' ''xyz'' (Some ''your_access_token'') w0)
       = Rejected (Error ''Authentication failed: Request token is required'')"
proof -
  have r: "fst (getValidAccessToken out1 ''abc'' ''xyz'' (Some ''your_access_token'') w0)
       = Rejected (Error ''Authentication failed: Request token is required'')"
    by (simp add: run_defs out1_def)
  show ?thesis
    using resolver_skips_probe_without_token [of "Some ''your_access_token''" w0 out1 "''abc''" "''xyz''"] r
    by simp
qed

subsection \<open>The pasted request token\<close>

text \<open>The white-space sequences are prefix-free, so a string made of them is trimmed to
  nothing.\<close>

lemma strip_any_Nil: "strip_any ws [] = []"
proof -
  have "find (\<lambda>w. w \<noteq> [] \<and> prefix w []) ws = None"
    by (simp add: find_None_iff)
  then show ?thesis by (subst strip_any.simps) simp
qed

lemma whitespace_shape:
  "\<forall>a \<in> set js_whitespace. a \<noteq> [] \<and> length a = utf8_len (hd a)"
  by (simp add: js_whitespace_def utf8_len_def)

lemma whitespace_prefix_free:
  assumes "a \<in> set js_whitespace" and "b \<in> set js_whitespace" and "prefix a (b @ s)"
  shows "a = b"
proof -
  from assms(1,2) whitespace_shape
  have a: "a \<noteq> []" "length a = utf8_len (hd a)" and b: "b \<noteq> []" "length b = utf8_len (hd b)"
    by blast+
  from assms(3) obtain r where r: "b @ s = a @ r" by (auto simp add: prefix_def)
  with a(1) b(1) have "hd a = hd b" by (metis hd_append2)
  with a(2) b(2) have "length a = length b" by simp
  with r show ?thesis by (metis append_eq_append_conv)
qed

lemma find_whitespace:
  assumes "x \<in> set js_whitespace"
  shows "find (\<lambda>w. w \<noteq> [] \<and> prefix w (x @ s)) js_whitespace = Some x"
proof (cases "find (\<lambda>w. w \<noteq> [] \<and> prefix w (x @ s)) js_whitespace")
  case None
  with assms whitespace_shape show ?thesis
    by (auto simp add: find_None_iff)
next
  case (Some y)
  then have "y \<in> set js_whitespace" and "prefix y (x @ s)"
    by (auto simp add: find_Some_iff)
  with assms have "y = x" by (rule_tac whitespace_prefix_free)
  with Some show ?thesis by simp
qed

lemma strip_whitespace:
  "x \<in> set js_whitespace \<Longrightarrow> strip_any js_whitespace (x @ s) = strip_any js_whitespace s"
  using find_whitespace [of x s] by (subst strip_any.simps) simp

lemma whitespace_only_trimStart: "whitespace_only p \<Longrightarrow> trimStart p = []"
proof (induction rule: whitespace_only.induct)
  case empty
  show ?case by (simp add: trimStart_def strip_any_Nil)
next
  case (more x s)
  then show ?case by (simp add: trimStart_def strip_whitespace)
qed

lemma whitespace_only_trim: "whitespace_only p \<Longrightarrow> trim p = []"
  by (simp add: trim_def whitespace_only_trimStart trimEnd_def strip_any_Nil)

text \<open>
  Claim C6. When the pasted line is empty or consists of white space only,
  \<^verbatim>\<open>interactiveAuth\<close> rejects with the error \<^verbatim>\<open>Request token is required\<close>; the only
  events are the login URL and the question, so no POST is made (every call of
  \<^verbatim>\<open>generateAccessToken\<close> makes one, so it is not called).
\<close>

theorem blank_request_token_fails_fast:
  assumes "pasted out = Some p" and "whitespace_only p"
  shows "interactiveAuth out auth w =
           (Rejected (Error ''Request token is required''),
            w\<lparr>trace := trace w @ [LoginUrlShown (getLoginUrl auth), Question question_text]\<rparr>)
       \<and> filter is_post (new_events w (snd (interactiveAuth out auth w))) = []"
proof -
  from assms(2) have "trim p = []" by (rule whitespace_only_trim)
  with assms(1) show ?thesis
    by (simp add: interactiveAuth_def emit_def new_events_def)
qed

theorem blank_request_token_fails_fast_witness:
  "pasted out1 = Some [CHR '' '', CHR 0x09] \<and> whitespace_only [CHR '' '', CHR 0x09]
   \<and> fst (interactiveAuth out1 (new_ZerodhaAuth ''abc'' ''xyz'') w0)
       = Rejected (Error ''Request token is required'')
   \<and> filter is_post
       (new_events w0 (snd (interactiveAuth out1 (new_ZerodhaAuth ''abc'' ''xyz'') w0))) = []"
proof -
  have p: "pasted out1 = Some [CHR '' '', CHR 0x09]" by (simp add: out1_def)
  have "whitespace_only ([CHR '' ''] @ [CHR 0x09] @ [])"
    by (intro whitespace_only.intros) (simp_all add: js_whitespace_def)
  then have ws: "whitespace_only [CHR '' '', CHR 0x09]" by simp
  show ?thesis
    using blank_request_token_fails_fast [OF p ws, of "new_ZerodhaAuth ''abc'' ''xyz''" w0] p ws
    by (simp add: new_events_def)
qed

subsection \<open>Evaluating SHA-256\<close>

lemma replicate_numeral: "replicate (numeral k) x = x # replicate (pred_numeral k) x"
  by (simp add: numeral_eq_Suc)

lemmas sha_eval = sha256_hex_def sha_pad_def len_bytes_def compress_def K256_def H256_def
  Ch_def Maj_def bsig0_def bsig1_def ssig0_def ssig1_def rotr32_def add32_def
  hex_word_def hex_digit_def replicate_numeral sha_blocks.simps

lemma sha256_scenario:
  "sha256_hex ''abctok123xyz''
     = ''fa80deef8ae654d844403ec6278b2ac9062e8214dc9c5a1107891b8f915cd9af''"
  by (simp add: sha_eval)

lemma sha256_scenario_swapped:
  "sha256_hex ''abcxyztok123''
     = ''f57b44da754e162248b4ddf821cae41794b8d2da3365162f63d09cb58d6176e2''"
  by (simp add: sha_eval)

subsection \<open>The checksum and the body of the exchange\<close>

lemma hex_digit_lower: "hex_digit n \<in> set ''0123456789abcdef''"
proof -
  have "nat (n mod 16) < length ''0123456789abcdef''" by simp
  then show ?thesis unfolding hex_digit_def by (rule nth_mem)
qed

lemma sha256_hex_digits: "set (sha256_hex s) \<subseteq> set ''0123456789abcdef''"
  using hex_digit_lower by (auto simp add: sha256_hex_def hex_word_def)

lemma form_encode_unreserved:
  "\<forall>c \<in> set s. form_unreserved c \<Longrightarrow> form_encode s = s"
  by (induction s) (simp_all add: form_encode_def form_encode_byte_def)

lemma form_encode_sha256_hex: "form_encode (sha256_hex s) = sha256_hex s"
proof (rule form_encode_unreserved)
  have "\<forall>c \<in> set ''0123456789abcdef''. form_unreserved c"
    by (simp add: form_unreserved_def)
  with sha256_hex_digits [of s] show "\<forall>c \<in> set (sha256_hex s). form_unreserved c"
    by blast
qed

lemma form_encode_names:
  "form_encode ''api_key'' = ''api_key''"
  "form_encode ''request_token'' = ''request_token''"
  "form_encode ''checksum'' = ''checksum''"
  by (simp_all add: form_encode_def form_encode_byte_def form_unreserved_def)

lemma exchange_body_eq:
  "exchange_body auth r =
     ''api_key='' @ form_encode (apiKey auth) @ ''&request_token='' @ form_encode r
     @ ''&checksum='' @ sha256_hex (apiKey auth @ r @ apiSecret auth)"
  by (simp add: exchange_body_def URLSearchParams_toString_def form_encode_names
      form_encode_sha256_hex checksum_def)

lemma form_encode_scenario:
  "form_encode ''abc'' = ''abc''" "form_encode ''tok123'' = ''tok123''"
  by (simp_all add: form_encode_def form_encode_byte_def form_unreserved_def)

text \<open>Swapping request token and secret does not always change the digest: \<^verbatim>\<open>a\<close> and
  \<^verbatim>\<open>aa\<close> differ, but both orders give the same concatenation.\<close>

theorem checksum_swap_counterexample:
  "\<not> (\<forall>k r s. r \<noteq> s \<longrightarrow> checksum k r s \<noteq> checksum k s r)"
proof
  assume "\<forall>k r s. r \<noteq> s \<longrightarrow> checksum k r s \<noteq> checksum k s r"
  then have "''a'' \<noteq> ''aa'' \<longrightarrow> checksum ''abc'' ''a'' ''aa'' \<noteq> checksum ''abc'' ''aa'' ''a''"
    by blast
  then show False by (simp add: checksum_def)
qed

subsection \<open>Trimming\<close>

lemma strip_any_no_prefix:
  "find (\<lambda>w. w \<noteq> [] \<and> prefix w (strip_any ws s)) ws = None"
proof (induction ws s rule: strip_any.induct)
  case (1 ws s)
  show ?case
  proof (cases "find (\<lambda>w. w \<noteq> [] \<and> prefix w s) ws")
    case None
    then have "strip_any ws s = s" by (subst strip_any.simps) simp
    with None show ?thesis by simp
  next
    case (Some w)
    then have "strip_any ws s = strip_any ws (drop (length w) s)"
      by (subst strip_any.simps) simp
    with 1 [OF Some] show ?thesis by simp
  qed
qed

lemma strip_any_idem: "strip_any ws (strip_any ws s) = strip_any ws s"
  using strip_any_no_prefix [of ws s] by (subst strip_any.simps) simp

lemma strip_any_suffix: "suffix (strip_any ws s) s"
proof (induction ws s rule: strip_any.induct)
  case (1 ws s)
  show ?case
  proof (cases "find (\<lambda>w. w \<noteq> [] \<and> prefix w s) ws")
    case None
    then have "strip_any ws s = s" by (subst strip_any.simps) simp
    then show ?thesis by simp
  next
    case (Some w)
    then have "strip_any ws s = strip_any ws (drop (length w) s)"
      by (subst strip_any.simps) simp
    with 1 [OF Some] have "suffix (strip_any ws s) (drop (length w) s)" by simp
    then show ?thesis by (rule suffix_order.trans) (rule suffix_drop)
  qed
qed

lemma trimEnd_prefix: "prefix (trimEnd s) s"
proof -
  have "suffix (strip_any (map rev js_whitespace) (rev s)) (rev s)"
    by (rule strip_any_suffix)
  then have "prefix (rev (strip_any (map rev js_whitespace) (rev s))) (rev (rev s))"
    by (simp only: suffix_to_prefix rev_rev_ident)
  then show ?thesis by (simp add: trimEnd_def)
qed

lemma trimEnd_trim: "trimEnd (trim p) = trim p"
  by (simp add: trim_def trimEnd_def strip_any_idem)

lemma trimStart_trim: "trimStart (trim p) = trim p"
proof -
  let ?y = "trimStart p"
  have none: "find (\<lambda>w. w \<noteq> [] \<and> prefix w ?y) js_whitespace = None"
    unfolding trimStart_def by (rule strip_any_no_prefix)
  have "find (\<lambda>w. w \<noteq> [] \<and> prefix w (trimEnd ?y)) js_whitespace = None"
  proof (rule ccontr)
    assume "find (\<lambda>w. w \<noteq> [] \<and> prefix w (trimEnd ?y)) js_whitespace \<noteq> None"
    then obtain w where "w \<in> set js_whitespace" "w \<noteq> []" "prefix w (trimEnd ?y)"
      by (auto simp add: find_None_iff)
    moreover have "prefix (trimEnd ?y) ?y" by (rule trimEnd_prefix)
    ultimately have "w \<in> set js_whitespace \<and> w \<noteq> [] \<and> prefix w ?y"
      using prefix_order.trans by blast
    with none show False by (auto simp add: find_None_iff)
  qed
  then have "strip_any js_whitespace (trimEnd ?y) = trimEnd ?y"
    by (subst strip_any.simps) simp
  then show ?thesis by (simp add: trim_def trimStart_def)
qed

text \<open>
  Claim C10. When the pasted line has a non-empty trimmed form, the only request of
  \<^verbatim>\<open>interactiveAuth\<close> is the POST whose body carries \<^verbatim>\<open>request_token\<close> equal to the
  trimmed line and the checksum SHA-256 of key, trimmed line and secret; the trimmed line
  has no white space left at either end.
\<close>

theorem pasted_token_is_trimmed:
  assumes "pasted out = Some p" and "trim p \<noteq> []"
  shows "new_events w (snd (interactiveAuth out auth w)) =
           [LoginUrlShown (getLoginUrl auth), Question question_text,
            HttpPost (baseUrl auth @ ''/session/token'')
              [(''Content-Type'', ''application/x-www-form-urlencoded'')]
              (''api_key='' @ form_encode (apiKey auth)
               @ ''&request_token='' @ form_encode (trim p)
               @ ''&checksum='' @ sha256_hex (apiKey auth @ trim p @ apiSecret auth))
              30000]
       \<and> trimStart (trim p) = trim p \<and> trimEnd (trim p) = trim p"
proof -
  from assms have nb: "non_blank (pasted out)"
    by (auto simp add: non_blank_def trim_def trimStart_def trimEnd_def strip_any_Nil)
  have "new_events w (snd (interactiveAuth out auth w)) = exchange_events out auth"
    by (rule new_events_append) (rule interactiveAuth_trace)
  with nb assms(1) show ?thesis
    by (simp add: exchange_events_def exchange_post_def exchange_body_eq
        trimStart_trim trimEnd_trim)
qed

theorem pasted_token_is_trimmed_witness:
  "pasted out0 = Some '' tok123 '' \<and> trim '' tok123 '' \<noteq> []
   \<and> trim '' tok123 '' = ''tok123''
   \<and> new_events w0 (snd (interactiveAuth out0 (new_ZerodhaAuth ''abc'' ''xyz'') w0)) =
       [LoginUrlShown ''https://kite.zerodha.com/connect/login?api_key=abc'',
        Question ''Please paste the request_token here: '',
        HttpPost ''https://api.kite.trade/session/token''
          [(''Content-Type'', ''application/x-www-form-urlencoded'')]
          (''api_key=abc&request_token=tok123&checksum='' @ sha256_hex ''abctok123xyz'')
          30000]"
proof -
  have p: "pasted out0 = Some '' tok123 ''" by (simp add: out0_def)
  have t: "trim '' tok123 '' = ''tok123''"
    by (simp add: trim_def trimStart_def trimEnd_def js_whitespace_def strip_any.simps)
  then have n: "trim '' tok123 '' \<noteq> []" by simp
  show ?thesis
    using pasted_token_is_trimmed [OF p n, of w0 "new_ZerodhaAuth ''abc'' ''xyz''"] p t
    by (simp add: new_ZerodhaAuth_def default_base_url_def getLoginUrl_def question_text_def
        form_encode_scenario)
qed

text \<open>
  Claim C2, amended. The checksum is the hexadecimal SHA-256 digest of key, request token
  and secret concatenated without separator, and it is what the POST of
  \<^verbatim>\<open>generateAccessToken\<close> carries in its \<^verbatim>\<open>checksum\<close> field. The digest depends on the
  three strings only through their concatenation: swapping request token and secret
  leaves it unchanged whenever the two concatenations coincide (as for \<^verbatim>\<open>a\<close> and
  \<^verbatim>\<open>aa\<close>). In the scenario with key \<^verbatim>\<open>abc\<close>, secret \<^verbatim>\<open>xyz\<close> and request token
  \<^verbatim>\<open>tok123\<close> the body is exactly
  \<^verbatim>\<open>api_key=abc&request_token=tok123&checksum=\<close> followed by the digest of
  \<^verbatim>\<open>abctok123xyz\<close>, and swapping request token and secret there gives another digest.
\<close>

theorem checksum_is_sha256_of_concatenation:
  "checksum k r s = sha256_hex (k @ r @ s)
   \<and> snd (generateAccessToken out auth r w) =
       emit (HttpPost (baseUrl auth @ ''/session/token'')
               [(''Content-Type'', ''application/x-www-form-urlencoded'')]
               (''api_key='' @ form_encode (apiKey auth) @ ''&request_token='' @ form_encode r
                @ ''&checksum='' @ sha256_hex (apiKey auth @ r @ apiSecret auth))
               30000) w
   \<and> (r @ s = s @ r \<longrightarrow> checksum k s r = checksum k r s)
   \<and> exchange_body \<lparr>apiKey = ''abc'', apiSecret = ''xyz'', baseUrl = b\<rparr> ''tok123''
       = ''api_key=abc&request_token=tok123&checksum=''
         @ ''fa80deef8ae654d844403ec6278b2ac9062e8214dc9c5a1107891b8f915cd9af''
   \<and> sha256_hex ''abctok123xyz''
       = ''fa80deef8ae654d844403ec6278b2ac9062e8214dc9c5a1107891b8f915cd9af''
   \<and> checksum ''abc'' ''xyz'' ''tok123'' \<noteq> checksum ''abc'' ''tok123'' ''xyz''"
proof -
  have a: "checksum k r s = sha256_hex (k @ r @ s)" by (simp add: checksum_def)
  have b: "snd (generateAccessToken out auth r w) =
       emit (HttpPost (baseUrl auth @ ''/session/token'')
               [(''Content-Type'', ''application/x-www-form-urlencoded'')]
               (''api_key='' @ form_encode (apiKey auth) @ ''&request_token='' @ form_encode r
                @ ''&checksum='' @ sha256_hex (apiKey auth @ r @ apiSecret auth))
               30000) w"
    by (simp add: generateAccessToken_world exchange_post_def exchange_body_eq)
  have c: "r @ s = s @ r \<longrightarrow> checksum k s r = checksum k r s"
    by (simp add: checksum_def)
  have d: "exchange_body \<lparr>apiKey = ''abc'', apiSecret = ''xyz'', baseUrl = b\<rparr> ''tok123''
       = ''api_key=abc&request_token=tok123&checksum=''
         @ ''fa80deef8ae654d844403ec6278b2ac9062e8214dc9c5a1107891b8f915cd9af''"
    using sha256_scenario by (simp add: exchange_body_eq form_encode_scenario)
  have e: "checksum ''abc'' ''xyz'' ''tok123'' \<noteq> checksum ''abc'' ''tok123'' ''xyz''"
    using sha256_scenario sha256_scenario_swapped by (simp add: checksum_def)
  from a b c d e sha256_scenario show ?thesis by blast
qed

theorem checksum_is_sha256_of_concatenation_witness:
  "''a'' @ ''aa'' = ''aa'' @ ''a'' \<and> ''a'' \<noteq> ''aa''
   \<and> checksum ''abc'' ''aa'' ''a'' = checksum ''abc'' ''a'' ''aa''"
  using checksum_is_sha256_of_concatenation
    [of "''abc''" "''a''" "''aa''" out0 "new_ZerodhaAuth ''abc'' ''xyz''" w0]
  by simp

subsection \<open>Updating \<^verbatim>\<open>.env\<close>\<close>

lemma find_first_decomp: "find_first key s = Some (p, r) \<Longrightarrow> s = p @ key @ r"
proof (induction s arbitrary: p)
  case Nil
  then show ?case by (simp split: if_splits)
next
  case (Cons c cs)
  show ?case
  proof (cases "prefix key (c # cs)")
    case True
    with Cons.prems have "p = []" and "r = drop (length key) (c # cs)" by simp_all
    with True show ?thesis by (auto simp add: prefix_def)
  next
    case False
    with Cons.prems obtain p' where "find_first key cs = Some (p', r)" and "p = c # p'"
      by auto
    with Cons.IH show ?thesis by simp
  qed
qed

lemma find_first_None: "find_first key s = None \<longleftrightarrow> \<not> sublist key s"
proof (induction s)
  case Nil
  show ?case by simp
next
  case (Cons c cs)
  then show ?case by (simp add: sublist_Cons_right)
qed

lemma dot_star_decomp: "dot_star s = (m, r) \<Longrightarrow> s = m @ r"
proof (induction s arbitrary: m)
  case Nil
  then show ?case by simp
next
  case (Cons c cs)
  then show ?case by (auto split: if_splits prod.splits)
qed

lemma match_token_line_decomp:
  "match_token_line content = Some (pre, m, post) \<Longrightarrow> content = pre @ m @ post"
  by (auto simp add: match_token_line_def split: option.splits prod.splits
      dest!: find_first_decomp dot_star_decomp)

lemma match_token_line_None:
  "match_token_line content = None \<longleftrightarrow> \<not> sublist token_key content"
  by (auto simp add: match_token_line_def find_first_None [symmetric]
      split: option.splits prod.splits)

lemma get_substitution_plain:
  "CHR ''$'' \<notin> set t \<Longrightarrow> get_substitution m p q t = t"
  by (induction m p q t rule: get_substitution.induct) auto

lemma replace_token_line_match:
  "match_token_line content = Some (pre, m, post) \<Longrightarrow>
     replace_token_line content t = pre @ get_substitution m pre post t @ post"
  by (simp add: replace_token_line_def)

lemma replace_token_line_no_match:
  "\<not> sublist token_key content \<Longrightarrow> replace_token_line content t = content"
  by (simp add: replace_token_line_def match_token_line_None [symmetric])

text \<open>With a token free of \<^verbatim>\<open>$\<close>, the matched text is replaced by the key and the
  token, and the text before and after the match is kept.\<close>

lemma replace_token_line_plain:
  assumes "match_token_line content = Some (pre, m, post)"
    and "CHR ''$'' \<notin> set (to_string tok)"
  shows "replace_token_line content (token_line tok) = pre @ token_line tok @ post"
proof -
  from assms(2) have "CHR ''$'' \<notin> set (token_line tok)"
    by (simp add: token_line_def)
  then show ?thesis
    by (simp add: replace_token_line_match [OF assms(1)] get_substitution_plain)
qed

text \<open>Text of ASCII characters is read as it is.\<close>

lemma utf8_text_ascii: "\<forall>c \<in> set s. (of_char c :: nat) < 128 \<Longrightarrow> utf8_text s = s"
  by (induction s) (simp_all add: in_range_def)

text \<open>
  The original wording of C9 promises a byte-identical file for every store without a
  token line. A store in Latin-1 refutes it: the byte \<^verbatim>\<open>E9\<close> is not well-formed UTF-8, it
  is read as U+FFFD and written as \<^verbatim>\<open>EF BF BD\<close>.
\<close>

theorem persist_not_byte_identical_counterexample:
  "\<not> sublist token_key latin1_env
   \<and> write_error out0 = None
   \<and> fst (updateEnvFile out0 (JStr ''newTok'') \<lparr>trace = [], dotenv = Some latin1_env\<rparr>)
       = Resolved ()
   \<and> dotenv (snd (updateEnvFile out0 (JStr ''newTok'')
                    \<lparr>trace = [], dotenv = Some latin1_env\<rparr>))
       = Some (''NAME=caf'' @ [CHR 0xEF, CHR 0xBF, CHR 0xBD, CHR 0x0A])
   \<and> dotenv (snd (updateEnvFile out0 (JStr ''newTok'')
                    \<lparr>trace = [], dotenv = Some latin1_env\<rparr>))
       \<noteq> Some latin1_env"
proof -
  have n: "\<not> sublist token_key latin1_env"
    by (simp add: find_first_None [symmetric] latin1_env_def token_key_def)
  have e: "write_error out0 = None" by (simp add: out0_def)
  have d: "dotenv (snd (updateEnvFile out0 (JStr ''newTok'')
                          \<lparr>trace = [], dotenv = Some latin1_env\<rparr>))
      = Some (''NAME=caf'' @ [CHR 0xEF, CHR 0xBF, CHR 0xBD, CHR 0x0A])"
    by (simp add: updateEnvFile_def updateEnvFile_try_def Let_def out0_def emit_def
        latin1_env_def utf8_eval replace_token_line_def match_token_line_def token_key_def
        token_line_def line_terminators_def)
  have "Some (''NAME=caf'' @ [CHR 0xEF, CHR 0xBF, CHR 0xBD, CHR 0x0A]) \<noteq> Some latin1_env"
    by (simp add: latin1_env_def)
  with n e d updateEnvFile_result show ?thesis by simp
qed

text \<open>
  Claim C9, amended. For an existing \<^verbatim>\<open>.env\<close>, \<^verbatim>\<open>updateEnvFile\<close> always resolves and makes
  one write; unless the write fails, the file then holds what was written. When the text
  read does not contain \<^verbatim>\<open>ZERODHA_ACCESS_TOKEN=\<close>, the content written is the text read, so
  the token is not recorded; for a store that is well-formed UTF-8 (decoding and encoding
  give its bytes back) this is the content of the store, byte for byte. When the
  expression matches, and matches again in the text after the first match, only the first
  match is replaced: the second match and everything around it are written as they were
  read.
\<close>

theorem persist_without_or_with_several_token_lines:
  assumes "dotenv w = Some content"
  shows "fst (updateEnvFile out tok w) = Resolved ()
       \<and> filter is_write (new_events w (snd (updateEnvFile out tok w)))
           = [WriteFile env_path (written_content w tok)]
       \<and> (write_error out = None \<longrightarrow>
            dotenv (snd (updateEnvFile out tok w)) = Some (written_content w tok))
       \<and> (\<not> sublist token_key (utf8_text content) \<longrightarrow>
            written_content w tok = utf8_text content)
       \<and> (utf8_text content = content \<and> \<not> sublist token_key content \<longrightarrow>
            written_content w tok = content
          \<and> (write_error out = None \<longrightarrow>
               dotenv (snd (updateEnvFile out tok w)) = Some content))
       \<and> (\<forall>pre m post pre2 m2 post2.
            match_token_line (utf8_text content) = Some (pre, m, post)
          \<and> match_token_line post = Some (pre2, m2, post2) \<longrightarrow>
            utf8_text content = pre @ m @ pre2 @ m2 @ post2
          \<and> written_content w tok
              = pre @ get_substitution m pre post (token_line tok) @ pre2 @ m2 @ post2
          \<and> (write_error out = None \<longrightarrow>
               dotenv (snd (updateEnvFile out tok w))
                 = Some (pre @ get_substitution m pre post (token_line tok)
                         @ pre2 @ m2 @ post2)))"
proof -
  have wc: "written_content w tok = replace_token_line (utf8_text content) (token_line tok)"
    using assms by (simp add: written_content_def)
  have a: "fst (updateEnvFile out tok w) = Resolved ()" by (rule updateEnvFile_result)
  have "new_events w (snd (updateEnvFile out tok w)) = persist_events out w tok"
    by (rule new_events_append) (simp add: updateEnvFile_trace persist_events_def)
  then have b: "filter is_write (new_events w (snd (updateEnvFile out tok w)))
      = [WriteFile env_path (written_content w tok)]"
    by (simp add: persist_events_filters)
  have c: "write_error out = None \<longrightarrow>
      dotenv (snd (updateEnvFile out tok w)) = Some (written_content w tok)"
    by (simp add: updateEnvFile_dotenv)
  have d: "written_content w tok = utf8_text content"
    if "\<not> sublist token_key (utf8_text content)"
    using that by (simp add: wc replace_token_line_no_match)
  have e: "written_content w tok = content
      \<and> (write_error out = None \<longrightarrow> dotenv (snd (updateEnvFile out tok w)) = Some content)"
    if "utf8_text content = content \<and> \<not> sublist token_key content"
    using that c by (simp add: wc replace_token_line_no_match)
  have f: "utf8_text content = pre @ m @ pre2 @ m2 @ post2
      \<and> written_content w tok
          = pre @ get_substitution m pre post (token_line tok) @ pre2 @ m2 @ post2
      \<and> (write_error out = None \<longrightarrow>
           dotenv (snd (updateEnvFile out tok w))
             = Some (pre @ get_substitution m pre post (token_line tok)
                     @ pre2 @ m2 @ post2))"
    if m1: "match_token_line (utf8_text content) = Some (pre, m, post)"
      and m2: "match_token_line post = Some (pre2, m2, post2)"
    for pre m post pre2 m2 post2
  proof -
    have p: "post = pre2 @ m2 @ post2" by (rule match_token_line_decomp [OF m2])
    have "utf8_text content = pre @ m @ post" by (rule match_token_line_decomp [OF m1])
    with p have c1: "utf8_text content = pre @ m @ pre2 @ m2 @ post2" by simp
    have "written_content w tok = pre @ get_substitution m pre post (token_line tok) @ post"
      unfolding wc by (rule replace_token_line_match [OF m1])
    then have c2: "written_content w tok
        = pre @ get_substitution m pre post (token_line tok) @ pre2 @ m2 @ post2"
      by (simp only: p)
    from c1 c2 c show ?thesis by simp
  qed
  from a b c d e f show ?thesis by blast
qed

theorem persist_without_or_with_several_token_lines_witness:
  "utf8_text readme_env = readme_env \<and> \<not> sublist token_key readme_env
   \<and> dotenv (snd (updateEnvFile out0 (JStr ''newTok'') \<lparr>trace = [], dotenv = Some readme_env\<rparr>))
       = Some readme_env
   \<and> match_token_line (utf8_text two_line_env)
       = Some ([], ''ZERODHA_ACCESS_TOKEN=old1'',
               [CHR 0x0A] @ ''REQUEST_TIMEOUT=30000'' @ [CHR 0x0A]
               @ ''ZERODHA_ACCESS_TOKEN=old2'' @ [CHR 0x0A])
   \<and> match_token_line ([CHR 0x0A] @ ''REQUEST_TIMEOUT=30000'' @ [CHR 0x0A]
                         @ ''ZERODHA_ACCESS_TOKEN=old2'' @ [CHR 0x0A])
       = Some ([CHR 0x0A] @ ''REQUEST_TIMEOUT=30000'' @ [CHR 0x0A],
               ''ZERODHA_ACCESS_TOKEN=old2'', [CHR 0x0A])
   \<and> dotenv (snd (updateEnvFile out0 (JStr ''newTok'')
                    \<lparr>trace = [], dotenv = Some two_line_env\<rparr>))
       = Some (''ZERODHA_ACCESS_TOKEN=newTok'' @ [CHR 0x0A] @ ''REQUEST_TIMEOUT=30000''
               @ [CHR 0x0A] @ ''ZERODHA_ACCESS_TOKEN=old2'' @ [CHR 0x0A])"
proof -
  let ?w1 = "\<lparr>trace = [], dotenv = Some readme_env\<rparr>"
  let ?w2 = "\<lparr>trace = [], dotenv = Some two_line_env\<rparr>"
  let ?post = "[CHR 0x0A] @ ''REQUEST_TIMEOUT=30000'' @ [CHR 0x0A]
               @ ''ZERODHA_ACCESS_TOKEN=old2'' @ [CHR 0x0A]"
  have u1: "utf8_text readme_env = readme_env"
    by (rule utf8_text_ascii) (simp add: readme_env_def)
  have u2: "utf8_text two_line_env = two_line_env"
    by (rule utf8_text_ascii) (simp add: two_line_env_def)
  have n: "\<not> sublist token_key readme_env"
    by (simp add: find_first_None [symmetric] readme_env_def token_key_def)
  have e: "write_error out0 = None" by (simp add: out0_def)
  have m1: "match_token_line (utf8_text two_line_env)
      = Some ([], ''ZERODHA_ACCESS_TOKEN=old1'', ?post)"
    unfolding u2
    by (simp add: match_token_line_def two_line_env_def token_key_def line_terminators_def)
  have m2: "match_token_line ?post
      = Some ([CHR 0x0A] @ ''REQUEST_TIMEOUT=30000'' @ [CHR 0x0A],
              ''ZERODHA_ACCESS_TOKEN=old2'', [CHR 0x0A])"
    by (simp add: match_token_line_def token_key_def line_terminators_def)
  have g: "get_substitution ''ZERODHA_ACCESS_TOKEN=old1'' [] ?post (token_line (JStr ''newTok''))
      = ''ZERODHA_ACCESS_TOKEN=newTok''"
    by (simp add: token_line_def)
  have w1: "dotenv ?w1 = Some readme_env" and w2: "dotenv ?w2 = Some two_line_env"
    by simp_all
  from persist_without_or_with_several_token_lines [OF w1, of out0 "JStr ''newTok''"] u1 n e
  have r1: "dotenv (snd (updateEnvFile out0 (JStr ''newTok'') ?w1)) = Some readme_env"
    by blast
  from persist_without_or_with_several_token_lines [OF w2, of out0 "JStr ''newTok''"] m1 m2 e
  have "dotenv (snd (updateEnvFile out0 (JStr ''newTok'') ?w2))
      = Some ([] @ get_substitution ''ZERODHA_ACCESS_TOKEN=old1'' [] ?post
                     (token_line (JStr ''newTok''))
              @ ([CHR 0x0A] @ ''REQUEST_TIMEOUT=30000'' @ [CHR 0x0A])
              @ ''ZERODHA_ACCESS_TOKEN=old2'' @ [CHR 0x0A])"
    by blast
  with g have r2: "dotenv (snd (updateEnvFile out0 (JStr ''newTok'') ?w2))
       = Some (''ZERODHA_ACCESS_TOKEN=newTok'' @ [CHR 0x0A] @ ''REQUEST_TIMEOUT=30000''
               @ [CHR 0x0A] @ ''ZERODHA_ACCESS_TOKEN=old2'' @ [CHR 0x0A])"
    by simp
  from u1 n r1 m1 m2 r2 show ?thesis by blast
qed

text \<open>
  Claim C7 fails for a token that contains a replacement pattern. With the token
  \<^verbatim>\<open>$&\<close> the access-token line of \<^verbatim>\<open>.env\<close> is not replaced by
  \<^verbatim>\<open>ZERODHA_ACCESS_TOKEN=$&\<close>: the pattern is expanded to the matched text, and the
  line written is \<^verbatim>\<open>ZERODHA_ACCESS_TOKEN=ZERODHA_ACCESS_TOKEN=old\<close>.
\<close>

theorem dollar_pattern_token_is_not_written:
  "fst (updateEnvFile out0 (JStr ''$&'') w0) = Resolved ()
   \<and> dotenv (snd (updateEnvFile out0 (JStr ''$&'') w0))
       = Some (''ZERODHA_API_KEY=abc'' @ [CHR 0x0A]
               @ ''ZERODHA_ACCESS_TOKEN=ZERODHA_ACCESS_TOKEN=old'' @ [CHR 0x0A])
   \<and> dotenv (snd (updateEnvFile out0 (JStr ''$&'') w0))
       \<noteq> Some (''ZERODHA_API_KEY=abc'' @ [CHR 0x0A] @ ''ZERODHA_ACCESS_TOKEN=$&'' @ [CHR 0x0A])"
  by (simp add: updateEnvFile_def updateEnvFile_try_def Let_def out0_def w0_def emit_def
      utf8_eval replace_token_line_def match_token_line_def token_key_def token_line_def
      line_terminators_def)

subsection \<open>The client constructed at server start\<close>

text \<open>When the environment sets neither \<^verbatim>\<open>ZERODHA_BASE_URL\<close> nor
  \<^verbatim>\<open>REQUEST_TIMEOUT\<close>, the \<^verbatim>\<open>config\<close> object still has both properties, with the value
  \<^verbatim>\<open>undefined\<close>, and the spread in the constructor copies them over its defaults. The
  defaults apply only to a configuration that lacks the properties.\<close>

lemma startup_config_unset:
  assumes "penv ''ZERODHA_BASE_URL'' = None" and "penv ''REQUEST_TIMEOUT'' = None"
  shows "baseURL (client (new_ZerodhaClient (startup_config parseInt penv k s tok))) = JUndefined"
    and "timeout (client (new_ZerodhaClient (startup_config parseInt penv k s tok))) = JUndefined"
  using assms
  by (simp_all add: new_ZerodhaClient_def startup_config_def spread_into_def obj_get_def
      env_value_def Let_def)

lemma constructor_defaults_when_absent:
  "client (new_ZerodhaClient
     [(''apiKey'', JStr k), (''apiSecret'', JStr s), (''accessToken'', JStr t)])
     = \<lparr>baseURL = JStr ''https://api.kite.trade'', timeout = JNum ''30000'',
        headers = [(''X-Kite-Version'', ''3''), (''Authorization'', ''token '' @ k @ '':'' @ t),
                   (''Content-Type'', ''application/x-www-form-urlencoded'')]\<rparr>"
  by (simp add: new_ZerodhaClient_def spread_into_def obj_get_def Let_def)

text \<open>
  Claim C8 fails at server start. With only the key and the secret in the environment,
  the client is created with \<^verbatim>\<open>baseURL\<close> and \<^verbatim>\<open>timeout\<close> both \<^verbatim>\<open>undefined\<close>, not
  with \<^verbatim>\<open>https://api.kite.trade\<close> and 30000.
\<close>

theorem startup_client_loses_defaults:
  "baseURL (client (new_ZerodhaClient
       (startup_config parseInt bare_env ''abc'' ''xyz'' (JStr ''tok'')))) = JUndefined
   \<and> timeout (client (new_ZerodhaClient
       (startup_config parseInt bare_env ''abc'' ''xyz'' (JStr ''tok'')))) = JUndefined
   \<and> baseURL (client (new_ZerodhaClient
       (startup_config parseInt bare_env ''abc'' ''xyz'' (JStr ''tok''))))
       \<noteq> JStr ''https://api.kite.trade''
   \<and> timeout (client (new_ZerodhaClient
       (startup_config parseInt bare_env ''abc'' ''xyz'' (JStr ''tok'')))) \<noteq> JNum ''30000''"
  by (simp add: new_ZerodhaClient_def startup_config_def spread_into_def obj_get_def
      env_value_def Let_def bare_env_def)

end
